theory Spec2Isabelle
  imports Main
begin

section \<open>JavaScript strings and numbers\<close>

text \<open>
  A JavaScript string is a sequence of UTF-16 code units. The code decodes numeric
  character references up to U+10FFFF, so the 8-bit characters of \<open>string\<close> are too small:
  a string is modelled as the list of its code units, and \<open>str\<close> embeds an ASCII
  literal of the source.
\<close>

type_synonym jsstring = "nat list"

definition str :: "string \<Rightarrow> jsstring" where
  "str s = map of_char s"

definition chr :: "char \<Rightarrow> nat" where
  "chr c = of_char c"

text \<open>
  A thrown value: an \<open>Error\<close> object carrying its message, or any other value
  (the handlers of the source only ask \<open>error instanceof Error\<close>).
\<close>

datatype exn = Error jsstring | Thrown

text \<open>The \<open>error instanceof Error ? error.message : fallback\<close> idiom of the handlers.\<close>

fun errorMessage :: "exn \<Rightarrow> jsstring \<Rightarrow> jsstring" where
  "errorMessage (Error msg) fallback = msg"
| "errorMessage Thrown fallback = fallback"

text \<open>
  Numbers in template literals. Ports and status codes are integers; they are
  modelled as unbounded \<open>int\<close>/\<open>nat\<close> and printed in plain decimal, which is what
  JavaScript prints for every integer below \<open>10^21\<close>.
\<close>

fun digits :: "nat \<Rightarrow> jsstring" where
  "digits n = (if n < 10 then [48 + n] else digits (n div 10) @ [48 + n mod 10])"

declare digits.simps [simp del]

definition showInt :: "int \<Rightarrow> jsstring" where
  "showInt i = (if i < 0 then chr CHR ''-'' # digits (nat (- i)) else digits (nat i))"

section \<open>Regular expressions of the source\<close>

text \<open>
  Every regular expression literal of \<^verbatim>\<open>index.ts\<close> is a sequence of items, each of
  them either literal text or one quantified character class (\<open>*\<close>, \<open>+\<close>, \<open>*?\<close>),
  and every capture group encloses exactly one quantified class. \<open>Rep greedy captured
  least cls\<close> is such a class: \<open>[^>]*\<close> is \<open>Rep True False 0\<close>, \<open>(\<bsol>d+)\<close> is
  \<open>Rep True True 1\<close>, \<open>([\<bsol>s\<bsol>S]*?)\<close> is \<open>Rep False True 0\<close>.
\<close>

datatype atom = Lit jsstring | Rep bool bool nat "nat \<Rightarrow> bool"

text \<open>
  The \<open>i\<close> flag compares canonicalised code units. All literals of the source are
  ASCII, and no code unit outside ASCII canonicalises to an ASCII one, so folding the
  ASCII letters is the whole of it.
\<close>

definition canon :: "bool \<Rightarrow> nat \<Rightarrow> nat" where
  "canon ic c = (if ic \<and> 97 \<le> c \<and> c \<le> 122 then c - 32 else c)"

fun litPrefix :: "bool \<Rightarrow> jsstring \<Rightarrow> jsstring \<Rightarrow> bool" where
  "litPrefix ic [] s = True"
| "litPrefix ic (a # l) [] = False"
| "litPrefix ic (a # l) (c # cs) = (canon ic a = canon ic c \<and> litPrefix ic l cs)"

fun addc :: "bool \<Rightarrow> nat \<Rightarrow> (jsstring list \<times> jsstring) option
    \<Rightarrow> (jsstring list \<times> jsstring) option" where
  "addc cap c None = None"
| "addc cap c (Some (caps, rest)) =
     Some (if cap then (case caps of [] \<Rightarrow> [[c]] | k # ks \<Rightarrow> (c # k) # ks) else caps, rest)"

fun opened :: "bool \<Rightarrow> (jsstring list \<times> jsstring) option
    \<Rightarrow> (jsstring list \<times> jsstring) option" where
  "opened cap None = None"
| "opened cap (Some (caps, rest)) = Some (if cap then [] # caps else caps, rest)"

text \<open>
  Backtracking match of the items at the head of the input, in the priority order of
  the ECMAScript matcher: a greedy class tries one more code unit before it tries the
  rest of the pattern, a lazy one the other way round. The result is the captured
  texts, in order, and the input left after the match.
\<close>

fun rmatch :: "bool \<Rightarrow> atom list \<Rightarrow> jsstring \<Rightarrow> (jsstring list \<times> jsstring) option" where
  "rmatch ic [] s = Some ([], s)"
| "rmatch ic (Lit l # as) s =
     (if litPrefix ic l s then rmatch ic as (drop (length l) s) else None)"
| "rmatch ic (Rep g cap (Suc n) p # as) [] = None"
| "rmatch ic (Rep g cap (Suc n) p # as) (c # cs) =
     (if p c then addc cap c (rmatch ic (Rep g cap n p # as) cs) else None)"
| "rmatch ic (Rep g cap 0 p # as) [] = opened cap (rmatch ic as [])"
| "rmatch ic (Rep g cap 0 p # as) (c # cs) =
     (if g then
        (case (if p c then addc cap c (rmatch ic (Rep g cap 0 p # as) cs) else None) of
           Some r \<Rightarrow> Some r
         | None \<Rightarrow> opened cap (rmatch ic as (c # cs)))
      else
        (case opened cap (rmatch ic as (c # cs)) of
           Some r \<Rightarrow> Some r
         | None \<Rightarrow> (if p c then addc cap c (rmatch ic (Rep g cap 0 p # as) cs) else None)))"

text \<open>
  The leftmost match, tried at every position from the current one to the end of the
  input: the text skipped before it, the matched text, the captures and the input
  after the match.
\<close>

fun found :: "jsstring \<Rightarrow> (jsstring list \<times> jsstring)
    \<Rightarrow> (jsstring \<times> jsstring \<times> jsstring list \<times> jsstring)" where
  "found s (caps, rest) = ([], take (length s - length rest) s, caps, rest)"

fun skipped :: "nat \<Rightarrow> (jsstring \<times> jsstring \<times> jsstring list \<times> jsstring) option
    \<Rightarrow> (jsstring \<times> jsstring \<times> jsstring list \<times> jsstring) option" where
  "skipped c None = None"
| "skipped c (Some (before, matched, caps, rest)) = Some (c # before, matched, caps, rest)"

fun rsearch :: "bool \<Rightarrow> atom list \<Rightarrow> jsstring
    \<Rightarrow> (jsstring \<times> jsstring \<times> jsstring list \<times> jsstring) option" where
  "rsearch ic as [] = map_option (found []) (rmatch ic as [])"
| "rsearch ic as (c # cs) =
     (case rmatch ic as (c # cs) of
        Some r \<Rightarrow> Some (found (c # cs) r)
      | None \<Rightarrow> skipped c (rsearch ic as cs))"

text \<open>
  \<open>String.prototype.replace\<close> with a global pattern and a replacer: the matches are
  taken left to right without overlap, and a replacer that throws aborts the call.
  No pattern of the source matches the empty string (each starts with literal text),
  so every match leaves a shorter input.
\<close>

function replaceAll :: "bool \<Rightarrow> atom list \<Rightarrow> (jsstring list \<Rightarrow> exn + jsstring)
    \<Rightarrow> jsstring \<Rightarrow> exn + jsstring" where
  "replaceAll ic as f s =
     (case rsearch ic as s of
        None \<Rightarrow> Inr s
      | Some (before, matched, caps, rest) \<Rightarrow>
          (case f caps of
             Inl e \<Rightarrow> Inl e
           | Inr r \<Rightarrow>
               (if length rest < length s then
                  (case replaceAll ic as f rest of
                     Inl e \<Rightarrow> Inl e
                   | Inr t \<Rightarrow> Inr (before @ r @ t))
                else Inr (before @ r @ rest))))"
  by pat_completeness auto
termination
  by (relation "measure (\<lambda>(ic, as, f, s). length s)") simp_all

declare replaceAll.simps [simp del]

section \<open>decodeHtmlEntities\<close>

definition isDigit :: "nat \<Rightarrow> bool" where
  "isDigit c = (48 \<le> c \<and> c \<le> 57)"

definition isHexDigit :: "nat \<Rightarrow> bool" where
  "isHexDigit c = (isDigit c \<or> (97 \<le> c \<and> c \<le> 102) \<or> (65 \<le> c \<and> c \<le> 70))"

definition digitValue :: "nat \<Rightarrow> nat" where
  "digitValue c = (if isDigit c then c - 48 else if 97 \<le> c then c - 87 else c - 55)"

text \<open>\<open>parseInt(code, radix)\<close> on a capture that holds digits of that radix only.\<close>

definition parseInt :: "nat \<Rightarrow> jsstring \<Rightarrow> nat" where
  "parseInt radix code = foldl (\<lambda>acc c. acc * radix + digitValue c) 0 code"

text \<open>
  \<open>String.fromCodePoint\<close>: a RangeError above U+10FFFF, one code unit up to U+FFFF,
  a surrogate pair beyond.
\<close>

definition fromCodePoint :: "nat \<Rightarrow> exn + jsstring" where
  "fromCodePoint n =
     (if n > 1114111 then Inl (Error (str ''Invalid code point '' @ digits n))
      else if n < 65536 then Inr [n]
      else Inr [55296 + (n - 65536) div 1024, 56320 + (n - 65536) mod 1024])"

fun capture1 :: "jsstring list \<Rightarrow> jsstring" where
  "capture1 [] = []"
| "capture1 (c # cs) = c"

text \<open>The seven patterns, in the order of the source.\<close>

definition reDecimal :: "atom list" where
  "reDecimal = [Lit (str ''&#''), Rep True True 1 isDigit, Lit (str '';'')]"

definition reHex :: "atom list" where
  "reHex = [Lit (str ''&#x''), Rep True True 1 isHexDigit, Lit (str '';'')]"

definition replaceLiteral :: "string \<Rightarrow> string \<Rightarrow> jsstring \<Rightarrow> exn + jsstring" where
  "replaceLiteral entity by s = replaceAll False [Lit (str entity)] (\<lambda>caps. Inr (str by)) s"

fun andThen :: "exn + 'a \<Rightarrow> ('a \<Rightarrow> exn + 'b) \<Rightarrow> exn + 'b" where
  "andThen (Inl e) f = Inl e"
| "andThen (Inr x) f = f x"

definition decodeHtmlEntities :: "jsstring \<Rightarrow> exn + jsstring" where
  "decodeHtmlEntities text =
     andThen (replaceAll False reDecimal (\<lambda>caps. fromCodePoint (parseInt 10 (capture1 caps))) text) (\<lambda>t1.
     andThen (replaceAll False reHex (\<lambda>caps. fromCodePoint (parseInt 16 (capture1 caps))) t1) (\<lambda>t2.
     andThen (replaceLiteral ''&amp;'' ''&'' t2) (\<lambda>t3.
     andThen (replaceLiteral ''&lt;'' ''<'' t3) (\<lambda>t4.
     andThen (replaceLiteral ''&gt;'' ''>'' t4) (\<lambda>t5.
     andThen (replaceLiteral ''&quot;'' [CHR 0x22] t5) (\<lambda>t6.
     replaceLiteral ''&apos;'' [CHR 0x27] t6))))))"


section \<open>Encodings of the platform\<close>

text \<open>
  \<open>Buffer.from(s)\<close> and \<open>URLSearchParams\<close> encode a string as UTF-8; a surrogate that
  has no partner becomes U+FFFD.
\<close>

fun utf8 :: "jsstring \<Rightarrow> nat list" where
  "utf8 [] = []"
| "utf8 (c # cs) =
     (if c < 128 then [c] @ utf8 cs
      else if c < 2048 then [192 + c div 64, 128 + c mod 64] @ utf8 cs
      else if 55296 \<le> c \<and> c < 56320 then
        (case cs of
           [] \<Rightarrow> [239, 191, 189]
         | d # ds \<Rightarrow>
             (if 56320 \<le> d \<and> d < 57344 then
                (let n = 65536 + (c - 55296) * 1024 + (d - 56320)
                 in [240 + n div 262144, 128 + n div 4096 mod 64, 128 + n div 64 mod 64,
                     128 + n mod 64] @ utf8 ds)
              else [239, 191, 189] @ utf8 cs))
      else if 56320 \<le> c \<and> c < 57344 then [239, 191, 189] @ utf8 cs
      else [224 + c div 4096, 128 + c div 64 mod 64, 128 + c mod 64] @ utf8 cs)"

text \<open>\<open>buffer.toString("base64")\<close>: the standard alphabet, padded with \<open>=\<close>.\<close>

definition b64 :: "nat \<Rightarrow> nat" where
  "b64 i = (if i < 26 then 65 + i else if i < 52 then 71 + i else if i < 62 then i - 4
            else if i = 62 then 43 else 47)"

fun base64 :: "nat list \<Rightarrow> jsstring" where
  "base64 [] = []"
| "base64 [a] = [b64 (a div 4), b64 (a mod 4 * 16), 61, 61]"
| "base64 [a, b] = [b64 (a div 4), b64 (a mod 4 * 16 + b div 16), b64 (b mod 16 * 4), 61]"
| "base64 (a # b # c # bs) =
     b64 (a div 4) # b64 (a mod 4 * 16 + b div 16) # b64 (b mod 16 * 4 + c div 64)
     # b64 (c mod 64) # base64 bs"

text \<open>
  \<open>URLSearchParams.prototype.toString\<close>: the \<open>application/x-www-form-urlencoded\<close>
  serialiser. A byte of \<open>*-._0-9A-Za-z\<close> stands for itself, a space becomes \<open>+\<close>, any
  other byte is \<open>%\<close> and two upper-case hexadecimal digits.
\<close>

definition hexDigit :: "nat \<Rightarrow> nat" where
  "hexDigit d = (if d < 10 then 48 + d else 55 + d)"

definition urlencodeByte :: "nat \<Rightarrow> jsstring" where
  "urlencodeByte b =
     (if b = 32 then [43]
      else if b = 42 \<or> b = 45 \<or> b = 46 \<or> b = 95 \<or> (48 \<le> b \<and> b \<le> 57)
              \<or> (65 \<le> b \<and> b \<le> 90) \<or> (97 \<le> b \<and> b \<le> 122) then [b]
      else [37, hexDigit (b div 16), hexDigit (b mod 16)])"

definition urlencode :: "jsstring \<Rightarrow> jsstring" where
  "urlencode s = concat (map urlencodeByte (utf8 s))"

fun paramsToString :: "(jsstring \<times> jsstring) list \<Rightarrow> jsstring" where
  "paramsToString [] = []"
| "paramsToString [(k, v)] = urlencode k @ chr CHR ''='' # urlencode v"
| "paramsToString ((k, v) # kv # kvs) =
     urlencode k @ chr CHR ''='' # urlencode v @ chr CHR ''&'' # paramsToString (kv # kvs)"

section \<open>Machines, requests and the world\<close>

record MachineConfig =
  name :: jsstring
  host :: jsstring
  port :: int
  username :: jsstring
  password :: jsstring
  secure :: "bool option"
  outputDir :: "jsstring option"
  saveClipboardMacroUid :: "jsstring option"

text \<open>
  A \<open>fetch\<close> call of the source: the URL, the \<open>method\<close> option and the
  Authorization header.
\<close>

record request =
  url :: jsstring
  httpMethod :: jsstring
  authorization :: jsstring

text \<open>
  What the code reads of a response: \<open>response.status\<close> and the outcome of
  \<open>await response.text()\<close>, which can itself reject.
\<close>

record response =
  status :: nat
  body :: "exn + jsstring"

definition ok :: "response \<Rightarrow> bool" where
  "ok r = (200 \<le> status r \<and> status r \<le> 299)"

text \<open>
  Everything outside the process. \<open>respond\<close> is the network: what \<open>fetch\<close> resolves
  to, or the value it rejects with, for each request. \<open>sent\<close> logs the calls made,
  oldest first.
  \<open>clock\<close> is \<open>Date.now()\<close> in milliseconds. \<open>readable p t\<close> says whether
  \<open>access(p, R_OK)\<close> succeeds at time \<open>t\<close>; \<open>readBytes\<close> and \<open>readText\<close> are
  \<open>readFile(p)\<close> and \<open>readFile(p, "utf-8")\<close> at that time. \<open>uuid\<close> is what
  \<open>randomUUID()\<close> returns, \<open>homedir\<close> and \<open>join\<close> are those of \<open>os\<close> and \<open>path\<close>.
\<close>

record world =
  respond :: "request \<Rightarrow> exn + response"
  sent :: "request list"
  clock :: nat
  readable :: "jsstring \<Rightarrow> nat \<Rightarrow> bool"
  readBytes :: "jsstring \<Rightarrow> nat \<Rightarrow> exn + nat list"
  readText :: "jsstring \<Rightarrow> nat \<Rightarrow> exn + jsstring"
  uuid :: jsstring
  homedir :: jsstring
  join :: "jsstring \<Rightarrow> jsstring \<Rightarrow> jsstring"

definition fetch :: "world \<Rightarrow> request \<Rightarrow> (exn + response) \<times> world" where
  "fetch w req = (respond w req, w\<lparr>sent := sent w @ [req]\<rparr>)"

definition getBaseUrl :: "MachineConfig \<Rightarrow> jsstring" where
  "getBaseUrl machine =
     (let protocol = (if secure machine = Some True then str ''https'' else str ''http'');
          port = (if secure machine = Some True then port machine + 1 else port machine)
      in protocol @ str ''://'' @ host machine @ str '':'' @ showInt port)"

definition getAuthHeader :: "MachineConfig \<Rightarrow> jsstring" where
  "getAuthHeader machine =
     (let credentials = base64 (utf8 (username machine @ str '':'' @ password machine))
      in str ''Basic '' @ credentials)"

section \<open>triggerMacro\<close>

record Outcome =
  success :: bool
  message :: jsstring

record TriggerResult = Outcome +
  result :: "jsstring option"

definition triggerRequest :: "MachineConfig \<Rightarrow> jsstring \<Rightarrow> jsstring option \<Rightarrow> request" where
  "triggerRequest machine macro value =
     (let httpsPort = port machine + 1;
          params = [(str ''macro'', macro)];
          params = (case value of
                      None \<Rightarrow> params
                    | Some v \<Rightarrow> if v = [] then params else params @ [(str ''value'', v)]);
          url = str ''https://'' @ host machine @ str '':'' @ showInt httpsPort
                @ str ''/authenticatedaction.html?'' @ paramsToString params
      in \<lparr>url = url, httpMethod = str ''GET'', authorization = getAuthHeader machine\<rparr>)"

text \<open>The \<open>try\<close> block: \<open>Inl\<close> is a value thrown inside it.\<close>

definition triggerMacro_try :: "MachineConfig \<Rightarrow> jsstring \<Rightarrow> exn + response
    \<Rightarrow> exn + TriggerResult" where
  "triggerMacro_try machine macro fetched =
     (case fetched of
        Inl e \<Rightarrow> Inl e
      | Inr response \<Rightarrow>
          (if ok response then
             (case body response of
                Inl e \<Rightarrow> Inl e
              | Inr responseBody \<Rightarrow>
                  Inr \<lparr>success = True,
                       message = str ''Macro \"'' @ macro @ str ''\" triggered successfully on ''
                                 @ name machine,
                       result = (if responseBody = [] then None else Some responseBody)\<rparr>)
           else if status response = 401 then
             Inr \<lparr>success = False,
                  message = str ''Authentication failed for '' @ name machine
                            @ str ''. Check username/password.'',
                  result = None\<rparr>
           else if status response = 403 then
             Inr \<lparr>success = False,
                  message = str ''Access denied for '' @ name machine
                            @ str ''. The macro may not exist or may not be enabled.'',
                  result = None\<rparr>
           else
             Inr \<lparr>success = False,
                  message = str ''Failed to trigger macro on '' @ name machine @ str '': HTTP ''
                            @ digits (status response),
                  result = None\<rparr>))"

text \<open>The \<open>catch\<close> block.\<close>

definition triggerMacro_catch :: "MachineConfig \<Rightarrow> exn \<Rightarrow> TriggerResult" where
  "triggerMacro_catch machine error =
     (let message = errorMessage error (str ''Unknown error occurred'')
      in \<lparr>success = False,
          message = str ''Failed to connect to '' @ name machine @ str '' ('' @ host machine
                    @ str '':'' @ showInt (port machine) @ str ''): '' @ message,
          result = None\<rparr>)"

definition triggerMacro :: "world \<Rightarrow> MachineConfig \<Rightarrow> jsstring \<Rightarrow> jsstring option
    \<Rightarrow> TriggerResult \<times> world" where
  "triggerMacro w machine macro value =
     (let (fetched, w') = fetch w (triggerRequest machine macro value)
      in (case triggerMacro_try machine macro fetched of
            Inl error \<Rightarrow> triggerMacro_catch machine error
          | Inr r \<Rightarrow> r,
          w'))"

section \<open>listMacros\<close>

text \<open>
  A loop \<open>while ((m = re.exec(s)) !== null)\<close> over a global pattern: each search
  starts where the last match ended. The result lists the captures of every match.
  A match of the empty string would make the source's loop spin on the spot; the
  patterns used here start with literal text and never match it, so the test on the
  lengths always succeeds.
\<close>

function execAll :: "bool \<Rightarrow> atom list \<Rightarrow> jsstring \<Rightarrow> jsstring list list" where
  "execAll ic as s =
     (case rsearch ic as s of
        None \<Rightarrow> []
      | Some (before, matched, caps, rest) \<Rightarrow>
          (if length rest < length s then caps # execAll ic as rest else [caps]))"
  by pat_completeness auto
termination
  by (relation "measure (\<lambda>(ic, as, s). length s)") simp_all

declare execAll.simps [simp del]

text \<open>
  \<open>String.prototype.trim\<close> strips the white space and line terminators of
  ECMAScript from both ends.
\<close>

definition isWhiteSpace :: "nat \<Rightarrow> bool" where
  "isWhiteSpace c =
     ((9 \<le> c \<and> c \<le> 13) \<or> c = 32 \<or> c = 160 \<or> c = 5760 \<or> (8192 \<le> c \<and> c \<le> 8202)
      \<or> c = 8232 \<or> c = 8233 \<or> c = 8239 \<or> c = 8287 \<or> c = 12288 \<or> c = 65279)"

definition trim :: "jsstring \<Rightarrow> jsstring" where
  "trim s = rev (dropWhile isWhiteSpace (rev (dropWhile isWhiteSpace s)))"

definition notGt :: "nat \<Rightarrow> bool" where
  "notGt c = (c \<noteq> chr CHR ''>'')"

definition notQuote :: "nat \<Rightarrow> bool" where
  "notQuote c = (c \<noteq> chr CHR 0x22)"

definition anyChar :: "nat \<Rightarrow> bool" where
  "anyChar c = True"

text \<open>
  The three patterns of \<open>listMacros\<close>, all with the \<open>i\<close> flag:
  \<^verbatim>\<open><form[^>]*action="authenticatedaction\.html"[^>]*>[\s\S]*?<\/form>\<close>,
  \<^verbatim>\<open><optgroup[^>]*label="([^"]*)"[^>]*>([\s\S]*?)<\/optgroup>\<close> and
  \<^verbatim>\<open><option[^>]*label="([^"]*)"[^>]*value="([^"]*)"[^>]*>\<close>.
\<close>

definition formRegex :: "atom list" where
  "formRegex =
     [Lit (str ''<form''), Rep True False 0 notGt,
      Lit (str ''action=\"authenticatedaction.html\"''), Rep True False 0 notGt,
      Lit (str ''>''), Rep False False 0 anyChar, Lit (str ''</form>'')]"

definition optgroupRegex :: "atom list" where
  "optgroupRegex =
     [Lit (str ''<optgroup''), Rep True False 0 notGt,
      Lit (str ''label=\"''), Rep True True 0 notQuote, Lit (str ''\"''),
      Rep True False 0 notGt, Lit (str ''>''), Rep False True 0 anyChar,
      Lit (str ''</optgroup>'')]"

definition optionRegex :: "atom list" where
  "optionRegex =
     [Lit (str ''<option''), Rep True False 0 notGt,
      Lit (str ''label=\"''), Rep True True 0 notQuote, Lit (str ''\"''),
      Rep True False 0 notGt,
      Lit (str ''value=\"''), Rep True True 0 notQuote, Lit (str ''\"''),
      Rep True False 0 notGt, Lit (str ''>'')]"

record MacroEntry =
  macroName :: jsstring
  uid :: jsstring
  group :: jsstring

text \<open>
  The inner loop over the options of one group. \<open>optionMatch[1]\<close> and
  \<open>optionMatch[2]\<close> are the two captures; reading a capture that is not there is the
  TypeError of \<open>undefined.trim()\<close>. An entry is pushed when \<open>name && uid\<close>.
\<close>

fun optionsLoop :: "jsstring \<Rightarrow> jsstring list list \<Rightarrow> exn + MacroEntry list" where
  "optionsLoop groupName [] = Inr []"
| "optionsLoop groupName ((label # val # others) # optionMatches) =
     andThen (decodeHtmlEntities (trim label)) (\<lambda>name.
     andThen (optionsLoop groupName optionMatches) (\<lambda>found.
       Inr (if name \<noteq> [] \<and> val \<noteq> []
            then \<lparr>macroName = name, uid = val, group = groupName\<rparr> # found
            else found)))"
| "optionsLoop groupName (caps # optionMatches) = Inl Thrown"

text \<open>The outer loop over the groups.\<close>

fun groupsLoop :: "jsstring list list \<Rightarrow> exn + MacroEntry list" where
  "groupsLoop [] = Inr []"
| "groupsLoop ((label # groupContent # others) # groupMatches) =
     andThen (decodeHtmlEntities (trim label)) (\<lambda>groupName.
     andThen (optionsLoop groupName (execAll True optionRegex groupContent)) (\<lambda>found.
     andThen (groupsLoop groupMatches) (\<lambda>more. Inr (found @ more))))"
| "groupsLoop (caps # groupMatches) = Inl Thrown"

definition parseMacros :: "jsstring \<Rightarrow> exn + MacroEntry list" where
  "parseMacros html =
     (let protectedSection = rsearch True formRegex html;
          htmlToParse = (case protectedSection of
                           Some (before, matched, caps, rest) \<Rightarrow> matched
                         | None \<Rightarrow> html)
      in groupsLoop (execAll True optgroupRegex htmlToParse))"

record ListResult =
  successL :: bool
  macros :: "MacroEntry list option"
  messageL :: "jsstring option"

definition listRequest :: "MachineConfig \<Rightarrow> request" where
  "listRequest machine =
     (let httpsPort = port machine + 1;
          url = str ''https://'' @ host machine @ str '':'' @ showInt httpsPort
                @ str ''/authenticated.html''
      in \<lparr>url = url, httpMethod = str ''GET'', authorization = getAuthHeader machine\<rparr>)"

definition listMacros_try :: "MachineConfig \<Rightarrow> exn + response \<Rightarrow> exn + ListResult" where
  "listMacros_try machine fetched =
     (case fetched of
        Inl e \<Rightarrow> Inl e
      | Inr response \<Rightarrow>
          (if \<not> ok response then
             (if status response = 401 then
                Inr \<lparr>successL = False, macros = None,
                     messageL = Some (str ''Authentication failed for '' @ name machine
                                      @ str ''. Check username/password.'')\<rparr>
              else
                Inr \<lparr>successL = False, macros = None,
                     messageL = Some (str ''Failed to fetch macros from '' @ name machine
                                      @ str '': HTTP '' @ digits (status response))\<rparr>)
           else
             (case body response of
                Inl e \<Rightarrow> Inl e
              | Inr html \<Rightarrow>
                  andThen (parseMacros html) (\<lambda>found.
                    Inr \<lparr>successL = True, macros = Some found, messageL = None\<rparr>))))"

definition listMacros_catch :: "MachineConfig \<Rightarrow> exn \<Rightarrow> ListResult" where
  "listMacros_catch machine error =
     (let message = errorMessage error (str ''Unknown error occurred'')
      in \<lparr>successL = False, macros = None,
          messageL = Some (str ''Failed to connect to '' @ name machine @ str '' (''
                           @ host machine @ str '':'' @ showInt (port machine) @ str ''): ''
                           @ message)\<rparr>)"

definition listMacros :: "world \<Rightarrow> MachineConfig \<Rightarrow> ListResult \<times> world" where
  "listMacros w machine =
     (let (fetched, w') = fetch w (listRequest machine)
      in (case listMacros_try machine fetched of
            Inl error \<Rightarrow> listMacros_catch machine error
          | Inr r \<Rightarrow> r,
          w'))"

section \<open>waitForFile and getClipboardResult\<close>


definition getOutputDir :: "world \<Rightarrow> MachineConfig \<Rightarrow> jsstring" where
  "getOutputDir w machine =
     (case outputDir machine of
        None \<Rightarrow> join w (homedir w) (str ''Downloads'')
      | Some dir \<Rightarrow> if dir = [] then join w (homedir w) (str ''Downloads'') else dir)"

definition pollInterval :: nat where
  "pollInterval = 100"

text \<open>
  The loop of \<open>waitForFile\<close> on a logical clock: \<open>acc t\<close> is whether \<open>access\<close>
  succeeds at time \<open>t\<close>, \<open>now\<close> is \<open>Date.now()\<close> when the loop test runs. A failed
  \<open>access\<close> is followed by \<open>setTimeout(resolve, pollInterval)\<close>, which moves the
  clock on by the interval; the file system call itself is charged no time. The loop
  returns its answer and the time at which it returns.
\<close>

function waitLoop :: "(nat \<Rightarrow> bool) \<Rightarrow> nat \<Rightarrow> nat \<Rightarrow> nat \<Rightarrow> bool \<times> nat" where
  "waitLoop acc startTime timeoutMs now =
     (if now - startTime < timeoutMs then
        (if acc now then (True, now)
         else waitLoop acc startTime timeoutMs (now + pollInterval))
      else (False, now))"
  by pat_completeness auto
termination
  by (relation "measure (\<lambda>(acc, startTime, timeoutMs, now). startTime + timeoutMs - now)")
     (simp_all add: pollInterval_def)

declare waitLoop.simps [simp del]

definition waitForFile :: "world \<Rightarrow> jsstring \<Rightarrow> nat \<Rightarrow> bool \<times> nat" where
  "waitForFile w filePath timeoutMs =
     (let startTime = clock w
      in waitLoop (readable w filePath) startTime timeoutMs startTime)"

text \<open>
  \<open>Promise.all\<close> of the two polls: both start at the current time, neither changes
  what the other reads, and the joined promise settles when the later one has
  settled.
\<close>

definition waitForBoth :: "world \<Rightarrow> jsstring \<Rightarrow> jsstring \<Rightarrow> nat \<Rightarrow> (bool \<times> bool) \<times> world" where
  "waitForBoth w textPath imagePath timeoutMs =
     (let (textExists, textDone) = waitForFile w textPath timeoutMs;
          (imageExists, imageDone) = waitForFile w imagePath timeoutMs
      in ((textExists, imageExists), w\<lparr>clock := max textDone imageDone\<rparr>))"

datatype ClipType = Text | Image

record ClipboardResult = Outcome +
  type :: "ClipType option"
  content :: "jsstring option"
  filePath :: "jsstring option"

definition failed :: "jsstring \<Rightarrow> ClipboardResult" where
  "failed msg = \<lparr>success = False, message = msg, type = None, content = None, filePath = None\<rparr>"

definition newline :: jsstring where
  "newline = [10]"

definition notConfiguredMessage :: "MachineConfig \<Rightarrow> jsstring" where
  "notConfiguredMessage machine =
     str ''Clipboard capture not configured for machine \"'' @ name machine @ str ''\".''
     @ newline @ newline
     @ str ''To enable clipboard capture:'' @ newline
     @ str ''1. Import the \"Save Clipboard to File\" macro from the keyboard-maestro-mcp package:''
     @ newline
     @ str ''   - Find '' @ [39] @ str ''save-clipboard-to-file.kmmacros'' @ [39]
     @ str '' in the package directory'' @ newline
     @ str ''   - Double-click to import into Keyboard Maestro on the target machine''
     @ newline @ newline
     @ str ''2. Get the macro'' @ [39] @ str ''s UUID:'' @ newline
     @ str ''   - Use list_macros to find \"Save Clipboard to File\" in the \"Keyboard Maestro MCP\" group''
     @ newline
     @ str ''   - Copy its '' @ [39] @ str ''uid'' @ [39] @ str '' value'' @ newline @ newline
     @ str ''3. Add to your machine config:'' @ newline
     @ str ''   \"saveClipboardMacroUid\": \"<the-uuid-you-copied>\"'' @ newline @ newline
     @ str ''4. Also configure outputDir (path where clipboard files are saved):'' @ newline
     @ str ''   \"outputDir\": \"/path/to/shared/folder\"'' @ newline
     @ str ''   (Use a folder accessible from where this MCP server runs, e.g., iCloud Drive for cross-machine access)''"

text \<open>What follows the polls: the image is looked at first, the text only after it.\<close>

definition readResult :: "world \<Rightarrow> jsstring \<Rightarrow> jsstring \<Rightarrow> bool \<Rightarrow> bool \<Rightarrow> ClipboardResult" where
  "readResult w textPath imagePath textExists imageExists =
     (if imageExists then
        (case readBytes w imagePath (clock w) of
           Inr imageData \<Rightarrow>
             \<lparr>success = True, message = str ''Clipboard image retrieved successfully'',
              type = Some Image, content = Some (base64 imageData), filePath = Some imagePath\<rparr>
         | Inl error \<Rightarrow>
             failed (str ''Failed to read image file: ''
                     @ errorMessage error (str ''Unknown error'')))
      else if textExists then
        (case readText w textPath (clock w) of
           Inr textData \<Rightarrow>
             \<lparr>success = True, message = str ''Clipboard text retrieved successfully'',
              type = Some Text, content = Some textData, filePath = Some textPath\<rparr>
         | Inl error \<Rightarrow>
             failed (str ''Failed to read text file: ''
                     @ errorMessage error (str ''Unknown error'')))
      else
        failed (str ''Clipboard save file not found. Expected: '' @ textPath @ str '' or ''
                @ imagePath
                @ str ''. Make sure the \"Save Clipboard to File\" macro is installed and the outputDir is configured correctly.''))"

definition getClipboardResult :: "world \<Rightarrow> MachineConfig \<Rightarrow> ClipboardResult \<times> world" where
  "getClipboardResult w machine =
     (case saveClipboardMacroUid machine of
        None \<Rightarrow> (failed (notConfiguredMessage machine), w)
      | Some macroUid \<Rightarrow>
          (if macroUid = [] then (failed (notConfiguredMessage machine), w)
           else
             (let requestId = take 8 (uuid w);
                  outputDir = getOutputDir w machine;
                  (triggerResult, w1) = triggerMacro w machine macroUid (Some requestId)
              in if \<not> success triggerResult then
                   (failed (str ''Failed to trigger Save Clipboard macro: ''
                            @ message triggerResult), w1)
                 else
                   (let textPath = join w outputDir (str ''clipsav_'' @ requestId @ str ''.txt'');
                        imagePath = join w outputDir (str ''clipsav_'' @ requestId @ str ''.png'');
                        ((textExists, imageExists), w2) = waitForBoth w1 textPath imagePath 3000
                    in (readResult w2 textPath imagePath textExists imageExists, w2)))))"

section \<open>The trigger\_macro\_on\_all tool\<close>

text \<open>
  \<open>machines.map((m) => triggerMacro(m, macro, value))\<close>: the calls are started in
  registry order, and \<open>Promise.all\<close> hands their results back in that order.
\<close>

fun triggerEach :: "world \<Rightarrow> MachineConfig list \<Rightarrow> jsstring \<Rightarrow> jsstring option
    \<Rightarrow> TriggerResult list \<times> world" where
  "triggerEach w [] macro value = ([], w)"
| "triggerEach w (m # ms) macro value =
     (let (r, w1) = triggerMacro w m macro value;
          (rs, w2) = triggerEach w1 ms macro value
      in (r # rs, w2))"

fun joinWith :: "jsstring \<Rightarrow> jsstring list \<Rightarrow> jsstring" where
  "joinWith sep [] = []"
| "joinWith sep [x] = x"
| "joinWith sep (x # y # ys) = x @ sep @ joinWith sep (y # ys)"

record ToolResult =
  texts :: "jsstring list"
  isError :: bool

definition triggerMacroOnAll :: "world \<Rightarrow> MachineConfig list \<Rightarrow> jsstring \<Rightarrow> jsstring option
    \<Rightarrow> ToolResult \<times> world" where
  "triggerMacroOnAll w machines macro value =
     (if length machines = 0 then (\<lparr>texts = [str ''No machines configured.''], isError = True\<rparr>, w)
      else
        (let (results, w') = triggerEach w machines macro value;
             summary = joinWith newline
               (map (\<lambda>(r, i). name (machines ! i) @ str '': '' @ message r)
                    (zip results [0 ..< length results]));
             allSuccess = list_all success results
         in (\<lparr>texts = [summary], isError = \<not> allSuccess\<rparr>, w')))"

section \<open>getMachines\<close>

text \<open>
  \<open>JSON.parse\<close> returns a value of any shape, and the type annotation of the source
  checks nothing at run time, so the registry is computed over dynamically typed
  values. Numbers are the integers a port can be; \<open>NaN\<close> is what \<open>parseInt\<close> gives
  for text without digits.
\<close>

datatype jsval =
    Undefined | Null | Bool bool | Num int | NaN | Str jsstring
  | Arr "jsval list" | Obj "(jsstring \<times> jsval) list"

text \<open>
  Reading one of the eight configuration properties \<open>m.name\<close>, ..., of a value: a
  TypeError on \<open>null\<close>, the stored value on an object that has the key, and
  \<open>undefined\<close> otherwise (no primitive and no array has a property of these names).
  An object is the list of its properties, each key once.
\<close>

definition own :: "(jsstring \<times> jsval) list \<Rightarrow> string \<Rightarrow> jsval" where
  "own kvs k = (case map_of kvs (str k) of None \<Rightarrow> Undefined | Some v \<Rightarrow> v)"

fun getProp :: "jsval \<Rightarrow> string \<Rightarrow> exn + jsval" where
  "getProp Null k = Inl (Error (str ''Cannot read properties of null''))"
| "getProp Undefined k = Inl (Error (str ''Cannot read properties of undefined''))"
| "getProp (Obj kvs) k = Inr (own kvs k)"
| "getProp v k = Inr Undefined"

fun isArray :: "jsval \<Rightarrow> bool" where
  "isArray (Arr vs) = True"
| "isArray v = False"

fun truthyVal :: "jsval \<Rightarrow> bool" where
  "truthyVal Undefined = False"
| "truthyVal Null = False"
| "truthyVal (Bool b) = b"
| "truthyVal (Num n) = (n \<noteq> 0)"
| "truthyVal NaN = False"
| "truthyVal (Str s) = (s \<noteq> [])"
| "truthyVal (Arr vs) = True"
| "truthyVal (Obj kvs) = True"

text \<open>The operators \<open>a || b\<close> and \<open>a ?? b\<close>.\<close>

definition orElse :: "jsval \<Rightarrow> jsval \<Rightarrow> jsval" where
  "orElse a b = (if truthyVal a then a else b)"

definition nullish :: "jsval \<Rightarrow> jsval \<Rightarrow> jsval" where
  "nullish a b = (if a = Undefined \<or> a = Null then b else a)"

text \<open>The object literal built for each machine; a field left out is \<open>undefined\<close>.\<close>

record MachineValue =
  nameV :: jsval
  hostV :: jsval
  portV :: jsval
  usernameV :: jsval
  passwordV :: jsval
  secureV :: jsval
  outputDirV :: jsval
  saveClipboardMacroUidV :: jsval

text \<open>The callback of \<open>parsed.map\<close>.\<close>

definition resolveMachine :: "jsval \<Rightarrow> exn + MachineValue" where
  "resolveMachine m =
     andThen (getProp m ''name'') (\<lambda>n.
     andThen (getProp m ''host'') (\<lambda>h.
     andThen (getProp m ''port'') (\<lambda>p.
     andThen (getProp m ''username'') (\<lambda>u.
     andThen (getProp m ''password'') (\<lambda>pw.
     andThen (getProp m ''secure'') (\<lambda>s.
     andThen (getProp m ''outputDir'') (\<lambda>dir.
     andThen (getProp m ''saveClipboardMacroUid'') (\<lambda>mu.
       Inr \<lparr>nameV = orElse n (Str (str ''unnamed'')),
            hostV = h,
            portV = orElse p (Num 4490),
            usernameV = u,
            passwordV = pw,
            secureV = nullish s (Bool False),
            outputDirV = dir,
            saveClipboardMacroUidV = mu\<rparr>))))))))"

fun mapAll :: "('a \<Rightarrow> exn + 'b) \<Rightarrow> 'a list \<Rightarrow> exn + 'b list" where
  "mapAll f [] = Inr []"
| "mapAll f (x # xs) =
     andThen (f x) (\<lambda>y. andThen (mapAll f xs) (\<lambda>ys. Inr (y # ys)))"

text \<open>
  The environment variables read, and \<open>parseInt(port, 10)\<close> on arbitrary text:
  leading white space, a sign, then the longest run of decimal digits.
\<close>

record Env =
  KM_MACHINES :: "jsstring option"
  KM_HOST :: "jsstring option"
  KM_PORT :: "jsstring option"
  KM_USERNAME :: "jsstring option"
  KM_PASSWORD :: "jsstring option"
  KM_SECURE :: "jsstring option"

definition parseIntText :: "jsstring \<Rightarrow> jsval" where
  "parseIntText s =
     (let t = dropWhile isWhiteSpace s;
          negative = (take 1 t = str ''-'');
          u = (if take 1 t = str ''-'' \<or> take 1 t = str ''+'' then drop 1 t else t);
          ds = takeWhile isDigit u
      in if ds = [] then NaN
         else Num (if negative then - int (parseInt 10 ds) else int (parseInt 10 ds)))"

fun present :: "jsstring option \<Rightarrow> bool" where
  "present None = False"
| "present (Some s) = (s \<noteq> [])"

fun orEmpty :: "jsstring option \<Rightarrow> jsstring" where
  "orEmpty None = []"
| "orEmpty (Some s) = s"

text \<open>The branch taken when \<open>KM_MACHINES\<close> is unset or empty.\<close>

definition legacyMachines :: "Env \<Rightarrow> MachineValue list" where
  "legacyMachines env =
     (if present (KM_HOST env) \<and> present (KM_USERNAME env) \<and> present (KM_PASSWORD env) then
        [\<lparr>nameV = Str (str ''default''),
          hostV = Str (orEmpty (KM_HOST env)),
          portV = (if present (KM_PORT env) then parseIntText (orEmpty (KM_PORT env)) else Num 4490),
          usernameV = Str (orEmpty (KM_USERNAME env)),
          passwordV = Str (orEmpty (KM_PASSWORD env)),
          secureV = Bool (KM_SECURE env = Some (str ''true'')),
          outputDirV = Undefined,
          saveClipboardMacroUidV = Undefined\<rparr>]
      else [])"

text \<open>
  The \<open>try\<close> block, over the platform's \<open>JSON.parse\<close>, and the function itself. The
  two \<open>console.error\<close> diagnostics write to the error stream only and are left out.
\<close>

definition getMachines_try :: "(jsstring \<Rightarrow> exn + jsval) \<Rightarrow> jsstring \<Rightarrow> exn + MachineValue list" where
  "getMachines_try JSON_parse machinesEnv =
     andThen (JSON_parse machinesEnv) (\<lambda>parsed.
       if \<not> isArray parsed then Inr []
       else (case parsed of
               Arr elements \<Rightarrow> mapAll resolveMachine elements
             | other \<Rightarrow> Inr []))"

definition getMachines :: "(jsstring \<Rightarrow> exn + jsval) \<Rightarrow> Env \<Rightarrow> MachineValue list" where
  "getMachines JSON_parse env =
     (if \<not> present (KM_MACHINES env) then legacyMachines env
      else
        (case getMachines_try JSON_parse (orEmpty (KM_MACHINES env)) of
           Inl e \<Rightarrow> []
         | Inr machines \<Rightarrow> machines))"

section \<open>Sample inputs\<close>

text \<open>A machine, and a world around a given network, used to run the functions.\<close>

definition studio :: MachineConfig where
  "studio = \<lparr>name = str ''Studio'', host = str ''studio.local'', port = 4490,
     username = str ''km'', password = str ''secret'', secure = Some False,
     outputDir = None, saveClipboardMacroUid = None\<rparr>"

definition serverOf :: "(request \<Rightarrow> exn + response) \<Rightarrow> world" where
  "serverOf f = \<lparr>respond = f, sent = [], clock = 0, readable = (\<lambda>p t. False),
     readBytes = (\<lambda>p t. Inl Thrown), readText = (\<lambda>p t. Inl Thrown),
     uuid = str ''1b9d6bcd-bbfd-4b2d-9b5d-ab8dfbbd4bed'', homedir = str ''/Users/me'',
     join = (\<lambda>a b. a @ str ''/'' @ b)\<rparr>"

definition office :: MachineConfig where
  "office = \<lparr>name = str ''Office'', host = str ''office.local'', port = 4490,
     username = str ''km'', password = str ''secret'', secure = Some True,
     outputDir = None, saveClipboardMacroUid = None\<rparr>"

definition laptop :: MachineConfig where
  "laptop = \<lparr>name = str ''Laptop'', host = str ''laptop.local'', port = 5000,
     username = str ''km'', password = str ''secret'', secure = None,
     outputDir = None, saveClipboardMacroUid = None\<rparr>"

text \<open>
  A network on which the office machine refuses the connection and every other host
  answers 200 with an empty body.
\<close>

definition officeDown :: "request \<Rightarrow> exn + response" where
  "officeDown req =
     (if take 20 (url req) = str ''https://office.local'' then Inl (Error (str ''connect ECONNREFUSED''))
      else Inr \<lparr>status = 200, body = Inr []\<rparr>)"

text \<open>A network that gives every request the same answer, and one that is down.\<close>

definition answering :: "nat \<Rightarrow> jsstring \<Rightarrow> world" where
  "answering s b = serverOf (\<lambda>req. Inr \<lparr>status = s, body = Inr b\<rparr>)"

definition unreachable :: world where
  "unreachable = serverOf (\<lambda>req. Inl (Error (str ''fetch failed'')))"

text \<open>A machine list as \<open>KM_MACHINES\<close> holds it, and the objects it denotes.\<close>

definition listText :: jsstring where
  "listText = str ''[{\"name\":\"Studio\",\"host\":\"studio.local\",\"port\":4500,\"username\":\"km\",\"password\":\"secret\",\"secure\":true},{\"name\":\"Laptop\",\"host\":\"laptop.local\",\"username\":\"km\",\"password\":\"pw\"}]''"

definition listObjects :: "(jsstring \<times> jsval) list list" where
  "listObjects =
     [[(str ''name'', Str (str ''Studio'')), (str ''host'', Str (str ''studio.local'')),
       (str ''port'', Num 4500), (str ''username'', Str (str ''km'')),
       (str ''password'', Str (str ''secret'')), (str ''secure'', Bool True)],
      [(str ''name'', Str (str ''Laptop'')), (str ''host'', Str (str ''laptop.local'')),
       (str ''username'', Str (str ''km'')), (str ''password'', Str (str ''pw''))]]"

text \<open>
  A stand-in for \<open>JSON.parse\<close> on the texts used here: the list, an object, and
  anything else, which it rejects the way \<open>JSON.parse\<close> rejects a text that is not JSON.
\<close>

definition sampleParse :: "jsstring \<Rightarrow> exn + jsval" where
  "sampleParse s =
     (if s = listText then Inr (Arr (map Obj listObjects))
      else if s = str ''{\"name\":\"Studio\"}'' then Inr (Obj [(str ''name'', Str (str ''Studio''))])
      else Inl (Error (str ''Unexpected end of JSON input'')))"

text \<open>An environment with the flat single-machine variables set.\<close>

definition envOf :: "jsstring option \<Rightarrow> Env" where
  "envOf machinesEnv =
     \<lparr>KM_MACHINES = machinesEnv, KM_HOST = Some (str ''studio.local''), KM_PORT = None,
      KM_USERNAME = Some (str ''km''), KM_PASSWORD = Some (str ''secret''), KM_SECURE = None\<rparr>"

text \<open>
  The sample machine with the capture macro configured, without and with an output
  directory; a world whose files are given by a predicate; the two candidate paths of
  a capture on the second machine.
\<close>

definition clipMachine :: MachineConfig where
  "clipMachine = studio\<lparr>saveClipboardMacroUid := Some (str ''D03AC8C4-56B0-4903-9682-8B2EC10576FC'')\<rparr>"

definition sharedMachine :: MachineConfig where
  "sharedMachine = clipMachine\<lparr>outputDir := Some (str ''/Shared/km'')\<rparr>"

definition withFiles :: "(jsstring \<Rightarrow> nat \<Rightarrow> bool) \<Rightarrow> world" where
  "withFiles r = (answering 200 [])
     \<lparr>readable := r,
      readBytes := (\<lambda>p t. if r p t then Inr [137, 80, 78, 71] else Inl (Error (str ''ENOENT''))),
      readText := (\<lambda>p t. if r p t then Inr (str ''hello'') else Inl (Error (str ''ENOENT'')))\<rparr>"

definition textFile :: jsstring where
  "textFile = str ''/Shared/km/clipsav_1b9d6bcd.txt''"

definition imageFile :: jsstring where
  "imageFile = str ''/Shared/km/clipsav_1b9d6bcd.png''"

text \<open>
  Two file systems for that capture: both candidate files appear 200 ms after the
  start; the text file is there from the start and the image file never appears.
\<close>

definition bothAt200 :: world where
  "bothAt200 = withFiles (\<lambda>p t. 200 \<le> t \<and> (p = textFile \<or> p = imageFile))"

definition textAtOnce :: world where
  "textAtOnce = withFiles (\<lambda>p t. p = textFile)"

text \<open>
  Three catalog documents: two groups of two options each, with an option that has no
  \<open>value\<close> and entities in the labels; a group whose second label holds the numeric
  reference of the last code point, U+10FFFF; and the same with the reference one
  beyond it.
\<close>

definition catalog :: jsstring where
  "catalog = str ''<form action=\"authenticatedaction.html\"><optgroup label=\"A &amp; B\"><option label=\"Shot\" value=\"U1\"><option label=\"&lt;b&gt;\" value=\"U2\"><option label=\"No Id\"></optgroup><optgroup label=\"Mail\"><option label=\"Send\" value=\"U3\"><option label=\"File\" value=\"U4\"></optgroup></form>''"

definition badCatalog :: jsstring where
  "badCatalog = str ''<optgroup label=\"G\"><option label=\"A\" value=\"1\"><option label=\"&#1114112;\" value=\"2\"></optgroup>''"

definition fineCatalog :: jsstring where
  "fineCatalog = str ''<optgroup label=\"G\"><option label=\"A\" value=\"1\"><option label=\"&#1114111;\" value=\"2\"></optgroup>''"

section \<open>Decoding as a sequence of passes\<close>

text \<open>
  The decoder as the specification words it: seven replacements, each over the whole
  text, one after the other, in this order: numeric decimal, numeric hexadecimal,
  \<open>&amp;\<close>, \<open>&lt;\<close>, \<open>&gt;\<close>, \<open>&quot;\<close>, \<open>&apos;\<close>. A pass that throws ends the
  sequence.
\<close>

definition numericDecimal :: "jsstring \<Rightarrow> exn + jsstring" where
  "numericDecimal t = replaceAll False reDecimal (\<lambda>caps. fromCodePoint (parseInt 10 (capture1 caps))) t"

definition numericHexadecimal :: "jsstring \<Rightarrow> exn + jsstring" where
  "numericHexadecimal t = replaceAll False reHex (\<lambda>caps. fromCodePoint (parseInt 16 (capture1 caps))) t"

definition entityPasses :: "(jsstring \<Rightarrow> exn + jsstring) list" where
  "entityPasses =
     [numericDecimal, numericHexadecimal, replaceLiteral ''&amp;'' ''&'',
      replaceLiteral ''&lt;'' ''<'', replaceLiteral ''&gt;'' ''>'',
      replaceLiteral ''&quot;'' [CHR 0x22], replaceLiteral ''&apos;'' [CHR 0x27]]"

fun oneAfterAnother :: "(jsstring \<Rightarrow> exn + jsstring) list \<Rightarrow> jsstring \<Rightarrow> exn + jsstring" where
  "oneAfterAnother [] t = Inr t"
| "oneAfterAnother (pass # passes) t = andThen (pass t) (oneAfterAnother passes)"

text \<open>Unfolding rules that evaluate the functions above on a given text.\<close>

named_theorems js_eval

declare str_def [js_eval] chr_def [js_eval] canon_def [js_eval] replaceAll.simps [js_eval]
  isDigit_def [js_eval] isHexDigit_def [js_eval] digitValue_def [js_eval]
  parseInt_def [js_eval] fromCodePoint_def [js_eval] reDecimal_def [js_eval]
  reHex_def [js_eval] replaceLiteral_def [js_eval] decodeHtmlEntities_def [js_eval]

section \<open>Every match consumes input\<close>

text \<open>
  The loops over a global pattern test that a match left a shorter input. For a
  pattern that starts with literal text the test always succeeds, so the loops of the
  model are those of the source.
\<close>

lemma addc_Some:
  "addc cap c r = Some (caps, rest) \<Longrightarrow> \<exists>caps'. r = Some (caps', rest)"
  by (cases r) (auto split: if_splits)

lemma opened_Some:
  "opened cap r = Some (caps, rest) \<Longrightarrow> \<exists>caps'. r = Some (caps', rest)"
  by (cases r) (auto split: if_splits)

lemma rmatch_rest:
  "rmatch ic as s = Some (caps, rest) \<Longrightarrow> length rest \<le> length s"
proof (induction ic as s arbitrary: caps rest rule: rmatch.induct)
  case (1 ic s)
  then show ?case by simp
next
  case (2 ic l as s)
  then show ?case by (fastforce split: if_splits)
next
  case (3 ic g cap n p as)
  then show ?case by simp
next
  case (4 ic g cap n p as c cs)
  then show ?case by (fastforce split: if_splits dest!: addc_Some)
next
  case (5 ic g cap p as)
  then show ?case by (fastforce dest!: opened_Some)
next
  case (6 ic g cap p as c cs)
  then show ?case
    by (fastforce split: if_splits option.splits dest!: addc_Some opened_Some)
qed

lemma litPrefix_nonempty:
  "litPrefix ic (a # l) s \<Longrightarrow> s \<noteq> []"
  by (cases s) simp_all

lemma rmatch_consumes:
  assumes "rmatch ic (Lit (a # l) # as) s = Some (caps, rest)"
  shows "length rest < length s"
proof -
  from assms have pre: "litPrefix ic (a # l) s"
    and m: "rmatch ic as (drop (length (a # l)) s) = Some (caps, rest)"
    by (simp_all split: if_splits)
  from pre have "s \<noteq> []" by (rule litPrefix_nonempty)
  moreover from m have "length rest \<le> length (drop (length (a # l)) s)" by (rule rmatch_rest)
  ultimately show ?thesis by (cases s) simp_all
qed

lemma rsearch_consumes:
  "rsearch ic (Lit (a # l) # as) s = Some (before, matched, caps, rest) \<Longrightarrow> length rest < length s"
proof (induction s arbitrary: before)
  case Nil
  then show ?case by (auto dest: rmatch_consumes)
next
  case (Cons c cs)
  show ?case
  proof (cases "rmatch ic (Lit (a # l) # as) (c # cs)")
    case (Some r)
    with Cons.prems have "rmatch ic (Lit (a # l) # as) (c # cs) = Some (caps, rest)"
      by (cases r) simp
    then show ?thesis by (rule rmatch_consumes)
  next
    case None
    with Cons.prems obtain b where "rsearch ic (Lit (a # l) # as) cs = Some (b, matched, caps, rest)"
      by (cases "rsearch ic (Lit (a # l) # as) cs") auto
    from Cons.IH [OF this] show ?thesis by simp
  qed
qed

text \<open>Every pattern of the source starts with literal text that is not empty.\<close>

lemma patterns_start_with_text:
  "\<exists>a l as. reDecimal = Lit (a # l) # as" "\<exists>a l as. reHex = Lit (a # l) # as"
  "\<exists>a l as. formRegex = Lit (a # l) # as" "\<exists>a l as. optgroupRegex = Lit (a # l) # as"
  "\<exists>a l as. optionRegex = Lit (a # l) # as" "e \<noteq> [] \<Longrightarrow> \<exists>a l as. [Lit (str e)] = Lit (a # l) # as"
  by (cases e; simp add: reDecimal_def reHex_def formRegex_def optgroupRegex_def optionRegex_def str_def)+

section \<open>Sequential decoding\<close>

lemma andThen_Inr_id:
  "andThen x Inr = x"
  by (cases x) simp_all

lemma oneAfterAnother_fun:
  "oneAfterAnother [] = Inr"
  "oneAfterAnother (pass # passes) = (\<lambda>t. andThen (pass t) (oneAfterAnother passes))"
  by (rule ext, simp)+

text \<open>
  C10. On every text \<open>decodeHtmlEntities\<close> is the seven replacements run one after the
  other over the whole text, in the order numeric decimal, numeric hexadecimal,
  \<open>&amp;\<close>, \<open>&lt;\<close>, \<open>&gt;\<close>, \<open>&quot;\<close>, \<open>&apos;\<close>. So what an earlier replacement
  produces is decoded again by a later one: \<open>&amp;lt;\<close> and \<open>&#38;lt;\<close> both give
  \<open><\<close>, not the \<open>&lt;\<close> of a single-pass substitution; likewise \<open>&#38;#x3c;\<close> gives
  \<open><\<close> through the hexadecimal pass, \<open>&#x26;gt;\<close> gives \<open>>\<close>, and \<open>&amp;quot;\<close> and
  \<open>&amp;apos;\<close> give the quotation marks. What a later replacement produces is not
  seen by an earlier one: \<open>&#x26;#60;\<close> stays \<open>&#60;\<close>, and \<open>&amp;#38;\<close> and
  \<open>&amp;#x26;\<close> stay \<open>&#38;\<close> and \<open>&#x26;\<close>.
\<close>

theorem C10_decode_is_sequential:
  "decodeHtmlEntities text = oneAfterAnother entityPasses text
   \<and> decodeHtmlEntities (str ''&amp;lt;'') = Inr (str ''<'')
   \<and> decodeHtmlEntities (str ''&#38;lt;'') = Inr (str ''<'')
   \<and> decodeHtmlEntities (str ''&amp;lt;'') \<noteq> Inr (str ''&lt;'')
   \<and> decodeHtmlEntities (str ''&#38;lt;'') \<noteq> Inr (str ''&lt;'')
   \<and> decodeHtmlEntities (str ''&#38;#x3c;'') = Inr (str ''<'')
   \<and> decodeHtmlEntities (str ''&#x26;gt;'') = Inr (str ''>'')
   \<and> decodeHtmlEntities (str ''&amp;quot;'') = Inr [34]
   \<and> decodeHtmlEntities (str ''&amp;apos;'') = Inr [39]
   \<and> decodeHtmlEntities (str ''&#x26;#60;'') = Inr (str ''&#60;'')
   \<and> decodeHtmlEntities (str ''&amp;#38;'') = Inr (str ''&#38;'')
   \<and> decodeHtmlEntities (str ''&amp;#x26;'') = Inr (str ''&#x26;'')"
proof -
  have passes: "decodeHtmlEntities text = oneAfterAnother entityPasses text"
    by (simp add: decodeHtmlEntities_def entityPasses_def numericDecimal_def
        numericHexadecimal_def oneAfterAnother_fun andThen_Inr_id)
  have earlier: "decodeHtmlEntities (str ''&amp;lt;'') = Inr (str ''<'')"
    "decodeHtmlEntities (str ''&#38;lt;'') = Inr (str ''<'')"
    "decodeHtmlEntities (str ''&#38;#x3c;'') = Inr (str ''<'')"
    "decodeHtmlEntities (str ''&#x26;gt;'') = Inr (str ''>'')"
    "decodeHtmlEntities (str ''&amp;quot;'') = Inr [34]"
    "decodeHtmlEntities (str ''&amp;apos;'') = Inr [39]"
    by (simp_all add: js_eval)
  have later: "decodeHtmlEntities (str ''&#x26;#60;'') = Inr (str ''&#60;'')"
    "decodeHtmlEntities (str ''&amp;#38;'') = Inr (str ''&#38;'')"
    "decodeHtmlEntities (str ''&amp;#x26;'') = Inr (str ''&#x26;'')"
    by (simp_all add: js_eval)
  have single: "str ''<'' \<noteq> str ''&lt;''"
    by (simp add: str_def)
  from passes earlier later single show ?thesis by simp
qed

section \<open>Outcomes of a trigger call\<close>

lemma triggerMacro_fst:
  "fst (triggerMacro w m macro v) =
     (case triggerMacro_try m macro (respond w (triggerRequest m macro v)) of
        Inl error \<Rightarrow> triggerMacro_catch m error | Inr r \<Rightarrow> r)"
  by (simp add: triggerMacro_def fetch_def)

lemma triggerMacro_snd:
  "snd (triggerMacro w m macro v) = w\<lparr>sent := sent w @ [triggerRequest m macro v]\<rparr>"
  by (simp add: triggerMacro_def fetch_def)

text \<open>
  C3. Every way a trigger call can go ends in a result, none in an exception. A 2xx
  response gives success, with \<open>result\<close> the body when it is not empty and absent when
  it is; 401 gives the authentication failure; 403 the access-denied outcome, whose
  message differs from that of 401; any other status outside 2xx the HTTP-status
  outcome; and a value thrown by \<open>fetch\<close>, or by reading the body of a 2xx response,
  the connectivity outcome that names machine, host and port. The function is total:
  the \<open>catch\<close> block turns every \<open>Inl\<close> of the \<open>try\<close> block into a result.
\<close>

theorem C3_trigger_outcomes:
  "(respond w (triggerRequest m macro v) = Inr \<lparr>status = s, body = Inr b\<rparr> \<and> 200 \<le> s \<and> s \<le> 299 \<longrightarrow>
      fst (triggerMacro w m macro v) =
        \<lparr>success = True,
         message = str ''Macro \"'' @ macro @ str ''\" triggered successfully on '' @ name m,
         result = (if b = [] then None else Some b)\<rparr>)
   \<and> (respond w (triggerRequest m macro v) = Inr \<lparr>status = 401, body = t\<rparr> \<longrightarrow>
      fst (triggerMacro w m macro v) =
        \<lparr>success = False,
         message = str ''Authentication failed for '' @ name m @ str ''. Check username/password.'',
         result = None\<rparr>)
   \<and> (respond w (triggerRequest m macro v) = Inr \<lparr>status = 403, body = t\<rparr> \<longrightarrow>
      fst (triggerMacro w m macro v) =
        \<lparr>success = False,
         message = str ''Access denied for '' @ name m
                   @ str ''. The macro may not exist or may not be enabled.'',
         result = None\<rparr>)
   \<and> (respond w (triggerRequest m macro v) = Inr \<lparr>status = s, body = t\<rparr>
        \<and> (s < 200 \<or> 299 < s) \<and> s \<noteq> 401 \<and> s \<noteq> 403 \<longrightarrow>
      fst (triggerMacro w m macro v) =
        \<lparr>success = False,
         message = str ''Failed to trigger macro on '' @ name m @ str '': HTTP '' @ digits s,
         result = None\<rparr>)
   \<and> (respond w (triggerRequest m macro v) = Inl e
        \<or> (respond w (triggerRequest m macro v) = Inr \<lparr>status = s, body = Inl e\<rparr>
            \<and> 200 \<le> s \<and> s \<le> 299) \<longrightarrow>
      fst (triggerMacro w m macro v) =
        \<lparr>success = False,
         message = str ''Failed to connect to '' @ name m @ str '' ('' @ host m @ str '':''
                   @ showInt (port m) @ str ''): ''
                   @ errorMessage e (str ''Unknown error occurred''),
         result = None\<rparr>)
   \<and> str ''Access denied for '' @ name m @ str ''. The macro may not exist or may not be enabled.''
       \<noteq> str ''Authentication failed for '' @ name m @ str ''. Check username/password.''"
  by (auto simp add: triggerMacro_fst triggerMacro_try_def triggerMacro_catch_def ok_def str_def)

theorem C3_trigger_outcomes_witness:
  "fst (triggerMacro (answering 200 (str ''42'')) studio (str ''Backup'') None)
     = \<lparr>success = True, message = str ''Macro \"Backup\" triggered successfully on Studio'',
        result = Some (str ''42'')\<rparr>
   \<and> fst (triggerMacro (answering 204 []) studio (str ''Backup'') None)
     = \<lparr>success = True, message = str ''Macro \"Backup\" triggered successfully on Studio'',
        result = None\<rparr>
   \<and> fst (triggerMacro (answering 401 []) studio (str ''Backup'') None)
     = \<lparr>success = False, message = str ''Authentication failed for Studio. Check username/password.'',
        result = None\<rparr>
   \<and> fst (triggerMacro (answering 403 []) studio (str ''Backup'') None)
     = \<lparr>success = False,
        message = str ''Access denied for Studio. The macro may not exist or may not be enabled.'',
        result = None\<rparr>
   \<and> fst (triggerMacro (answering 500 []) studio (str ''Backup'') None)
     = \<lparr>success = False, message = str ''Failed to trigger macro on Studio: HTTP 500'',
        result = None\<rparr>
   \<and> fst (triggerMacro unreachable studio (str ''Backup'') None)
     = \<lparr>success = False,
        message = str ''Failed to connect to Studio (studio.local:4490): fetch failed'',
        result = None\<rparr>"
  using
    C3_trigger_outcomes [where w = "answering 200 (str ''42'')" and m = studio
      and macro = "str ''Backup''" and v = None and s = 200 and b = "str ''42''"]
    C3_trigger_outcomes [where w = "answering 204 []" and m = studio
      and macro = "str ''Backup''" and v = None and s = 204 and b = "[]"]
    C3_trigger_outcomes [where w = "answering 401 []" and m = studio
      and macro = "str ''Backup''" and v = None and t = "Inr []"]
    C3_trigger_outcomes [where w = "answering 403 []" and m = studio
      and macro = "str ''Backup''" and v = None and t = "Inr []"]
    C3_trigger_outcomes [where w = "answering 500 []" and m = studio
      and macro = "str ''Backup''" and v = None and s = 500 and t = "Inr []"]
    C3_trigger_outcomes [where w = unreachable and m = studio
      and macro = "str ''Backup''" and v = None and e = "Error (str ''fetch failed'')"]
  by (simp add: answering_def unreachable_def serverOf_def studio_def str_def chr_def
      showInt_def digits.simps)

text \<open>\<open>getBaseUrl\<close>, which only \<open>fetchUrl\<close> calls, is where the flag is read.\<close>

lemma getBaseUrl_reads_secure:
  "getBaseUrl studio = str ''http://studio.local:4490''"
  "getBaseUrl (studio\<lparr>secure := Some True\<rparr>) = str ''https://studio.local:4491''"
  by (simp_all add: getBaseUrl_def studio_def str_def showInt_def digits.simps)

lemma listMacros_snd:
  "snd (listMacros w m) = w\<lparr>sent := sent w @ [listRequest m]\<rparr>"
  by (simp add: listMacros_def fetch_def)

text \<open>
  C6. The catalog read and the trigger call each make exactly one network call, to
  \<open>https://host:(port+1)\<close>, and the request is the same whatever the \<open>secure\<close> flag
  of the machine says.
\<close>

theorem C6_encrypted_endpoint:
  "sent (snd (listMacros w m)) = sent w @ [listRequest m]
   \<and> url (listRequest m)
       = str ''https://'' @ host m @ str '':'' @ showInt (port m + 1) @ str ''/authenticated.html''
   \<and> sent (snd (triggerMacro w m macro v)) = sent w @ [triggerRequest m macro v]
   \<and> (\<exists>query. url (triggerRequest m macro v)
       = str ''https://'' @ host m @ str '':'' @ showInt (port m + 1)
         @ str ''/authenticatedaction.html?'' @ query)
   \<and> listRequest (m\<lparr>secure := flag\<rparr>) = listRequest m
   \<and> triggerRequest (m\<lparr>secure := flag\<rparr>) macro v = triggerRequest m macro v"
  by (simp add: listMacros_snd triggerMacro_snd listRequest_def triggerRequest_def
      getAuthHeader_def Let_def)


theorem C6_encrypted_endpoint_witness:
  "secure studio = Some False
   \<and> url (listRequest studio) = str ''https://studio.local:4491/authenticated.html''
   \<and> url (triggerRequest studio (str ''Take Screenshot'') (Some (str ''a b'')))
       = str ''https://studio.local:4491/authenticatedaction.html?macro=Take+Screenshot&value=a+b''
   \<and> sent (snd (triggerMacro unreachable studio (str ''Backup'') None))
       = [triggerRequest studio (str ''Backup'') None]"
  using C6_encrypted_endpoint [of unreachable studio "str ''Backup''" None]
  by (simp add: listRequest_def triggerRequest_def unreachable_def serverOf_def studio_def
      str_def chr_def showInt_def digits.simps urlencode_def urlencodeByte_def
      getAuthHeader_def b64_def hexDigit_def)

section \<open>Fan-out over the registry\<close>

lemma triggerMacro_respond:
  "respond (snd (triggerMacro w m macro v)) = respond w"
  by (simp add: triggerMacro_snd)

lemma triggerMacro_fst_cong:
  "respond w' = respond w \<Longrightarrow> fst (triggerMacro w' m macro v) = fst (triggerMacro w m macro v)"
  by (simp add: triggerMacro_fst)

lemma triggerEach_respond:
  "respond (snd (triggerEach w ms macro v)) = respond w"
  by (induction ms arbitrary: w) (simp_all add: split_beta Let_def triggerMacro_respond)

lemma triggerEach_fst:
  "fst (triggerEach w ms macro v) = map (\<lambda>m. fst (triggerMacro w m macro v)) ms"
proof (induction ms arbitrary: w)
  case Nil
  show ?case by simp
next
  case (Cons m ms)
  have "map (\<lambda>x. fst (triggerMacro (snd (triggerMacro w m macro v)) x macro v)) ms
        = map (\<lambda>x. fst (triggerMacro w x macro v)) ms"
    by (simp add: triggerMacro_fst_cong [OF triggerMacro_respond])
  with Cons show ?case by (simp add: split_beta Let_def)
qed

lemma triggerEach_sent:
  "sent (snd (triggerEach w ms macro v)) = sent w @ map (\<lambda>m. triggerRequest m macro v) ms"
  by (induction ms arbitrary: w) (simp_all add: split_beta Let_def triggerMacro_snd)

lemma summary_lines:
  "length rs = length ms \<Longrightarrow>
   map (\<lambda>(r, i). name (ms ! i) @ sep @ message r) (zip rs [0 ..< length rs])
   = map (\<lambda>(m, r). name m @ sep @ message r) (zip ms rs)"
  by (rule nth_equalityI) simp_all

text \<open>
  C4. For a registry that is not empty, the tool calls every machine, in registry order
  (the log of calls grows by one request per machine), and gets one outcome per machine
  in that order. The outcome reported for a machine is the one a call to that machine
  alone gives: it depends on the network's answer to its own request and on nothing
  that happened to the others, and since \<open>triggerMacro\<close> turns a rejected \<open>fetch\<close> into
  a result, no call can abort the join. \<open>isError\<close> is the negation of the conjunction of
  the individual successes, and the text has one line per machine, in order.
\<close>

theorem C4_fan_out:
  assumes "machines \<noteq> []"
  shows "fst (triggerEach w machines macro v) = map (\<lambda>m. fst (triggerMacro w m macro v)) machines
    \<and> sent (snd (triggerMacroOnAll w machines macro v))
        = sent w @ map (\<lambda>m. triggerRequest m macro v) machines
    \<and> isError (fst (triggerMacroOnAll w machines macro v))
        = (\<not> list_all (\<lambda>m. success (fst (triggerMacro w m macro v))) machines)
    \<and> texts (fst (triggerMacroOnAll w machines macro v))
        = [joinWith newline
             (map (\<lambda>m. name m @ str '': '' @ message (fst (triggerMacro w m macro v))) machines)]"
proof -
  let ?out = "\<lambda>m. fst (triggerMacro w m macro v)"
  have results: "fst (triggerEach w machines macro v) = map ?out machines"
    by (rule triggerEach_fst)
  have lines: "map (\<lambda>(r, i). name (machines ! i) @ str '': '' @ message r)
                 (zip (map ?out machines) [0 ..< length (map ?out machines)])
               = map (\<lambda>m. name m @ str '': '' @ message (?out m)) machines"
    by (rule nth_equalityI) simp_all
  have all: "list_all success (map ?out machines) = list_all (\<lambda>m. success (?out m)) machines"
    by (simp add: list_all_iff)
  from assms have nonempty: "length machines \<noteq> 0" by simp
  show ?thesis
    using nonempty results lines all
    by (simp add: triggerMacroOnAll_def split_beta Let_def triggerEach_sent)
qed

lemmas trigger_eval = triggerMacro_fst triggerMacro_try_def triggerMacro_catch_def
  triggerRequest_def getAuthHeader_def ok_def serverOf_def studio_def str_def chr_def
  showInt_def digits.simps newline_def Let_def

lemma studio_backup:
  "fst (triggerMacro (serverOf officeDown) studio (str ''Backup'') None)
   = \<lparr>success = True, message = str ''Macro \"Backup\" triggered successfully on Studio'',
      result = None\<rparr>"
  by (simp add: trigger_eval officeDown_def)

lemma office_backup:
  "fst (triggerMacro (serverOf officeDown) office (str ''Backup'') None)
   = \<lparr>success = False,
      message = str ''Failed to connect to Office (office.local:4490): connect ECONNREFUSED'',
      result = None\<rparr>"
  by (simp add: trigger_eval officeDown_def office_def)

lemma laptop_backup:
  "fst (triggerMacro (serverOf officeDown) laptop (str ''Backup'') None)
   = \<lparr>success = True, message = str ''Macro \"Backup\" triggered successfully on Laptop'',
      result = None\<rparr>"
  by (simp add: trigger_eval officeDown_def laptop_def)

theorem C4_fan_out_witness:
  "[studio, office, laptop] \<noteq> []
   \<and> map success (fst (triggerEach (serverOf officeDown) [studio, office, laptop] (str ''Backup'') None))
       = [True, False, True]
   \<and> isError (fst (triggerMacroOnAll (serverOf officeDown) [studio, office, laptop] (str ''Backup'') None))
   \<and> texts (fst (triggerMacroOnAll (serverOf officeDown) [studio, office, laptop] (str ''Backup'') None))
       = [str ''Studio: Macro \"Backup\" triggered successfully on Studio'' @ newline
          @ str ''Office: Failed to connect to Office (office.local:4490): connect ECONNREFUSED'' @ newline
          @ str ''Laptop: Macro \"Backup\" triggered successfully on Laptop'']"
  using C4_fan_out [of "[studio, office, laptop]" "serverOf officeDown" "str ''Backup''" None]
  by (simp add: studio_backup office_backup laptop_backup)
     (simp add: studio_def office_def laptop_def str_def)


section \<open>The registry\<close>

lemma mapAll_objects:
  "mapAll resolveMachine (map Obj objs) = Inr (map (\<lambda>kvs. projr (resolveMachine (Obj kvs))) objs)"
  by (induction objs) (simp_all add: resolveMachine_def)

lemma getMachines_objects:
  assumes "KM_MACHINES env = Some s" and "s \<noteq> []" and "JSON_parse s = Inr (Arr (map Obj objs))"
  shows "getMachines JSON_parse env = map (\<lambda>kvs. projr (resolveMachine (Obj kvs))) objs"
  using assms by (simp add: getMachines_def getMachines_try_def mapAll_objects)

text \<open>
  C8. When \<open>KM_MACHINES\<close> holds a JSON array of objects, the registry has one record
  per object, in the order of the array. Each record carries the object's host,
  user name, password, output directory and macro identifier, and its name when that is
  a non-empty string; a port that is left out becomes 4490 and one that is given (and
  not zero) is kept; a \<open>secure\<close> flag that is left out becomes false and one that is
  given is kept. (A JSON text is never empty, which is the second hypothesis.)
\<close>

theorem C8_registry_order_and_defaults:
  assumes "KM_MACHINES env = Some s" and "s \<noteq> []" and "JSON_parse s = Inr (Arr (map Obj objs))"
  shows "length (getMachines JSON_parse env) = length objs
    \<and> (\<forall>i < length objs.
          hostV (getMachines JSON_parse env ! i) = own (objs ! i) ''host''
        \<and> usernameV (getMachines JSON_parse env ! i) = own (objs ! i) ''username''
        \<and> passwordV (getMachines JSON_parse env ! i) = own (objs ! i) ''password''
        \<and> outputDirV (getMachines JSON_parse env ! i) = own (objs ! i) ''outputDir''
        \<and> saveClipboardMacroUidV (getMachines JSON_parse env ! i)
            = own (objs ! i) ''saveClipboardMacroUid''
        \<and> (own (objs ! i) ''name'' = Str n \<and> n \<noteq> [] \<longrightarrow>
             nameV (getMachines JSON_parse env ! i) = Str n)
        \<and> (map_of (objs ! i) (str ''port'') = None \<longrightarrow>
             portV (getMachines JSON_parse env ! i) = Num 4490)
        \<and> (own (objs ! i) ''port'' = Num p \<and> p \<noteq> 0 \<longrightarrow>
             portV (getMachines JSON_parse env ! i) = Num p)
        \<and> (map_of (objs ! i) (str ''secure'') = None \<longrightarrow>
             secureV (getMachines JSON_parse env ! i) = Bool False)
        \<and> (own (objs ! i) ''secure'' = Bool b \<longrightarrow>
             secureV (getMachines JSON_parse env ! i) = Bool b))"
proof -
  have "getMachines JSON_parse env = map (\<lambda>kvs. projr (resolveMachine (Obj kvs))) objs"
    using assms by (rule getMachines_objects)
  then show ?thesis
    by (simp add: resolveMachine_def own_def orElse_def nullish_def)
qed

text \<open>
  C7, as amended. When \<open>KM_MACHINES\<close> holds a non-empty text that \<open>JSON.parse\<close>
  rejects, or that parses to anything but an array, the registry is empty, whatever the
  flat single-machine variables say; the function returns a list in every case. The
  text has to be non-empty: the source tests \<open>!machinesEnv\<close>, so an empty
  \<open>KM_MACHINES\<close> counts as unset and the flat variables are consulted.
\<close>

theorem C7_malformed_list_is_empty:
  assumes "KM_MACHINES env = Some s" and "s \<noteq> []"
    and "JSON_parse s = Inl e \<or> (JSON_parse s = Inr v \<and> \<not> isArray v)"
  shows "getMachines JSON_parse env = []"
  using assms by (auto simp add: getMachines_def getMachines_try_def)

text \<open>
  The claim as first stated fails on the empty text: it is not valid JSON, yet with
  \<open>KM_HOST\<close>, \<open>KM_USERNAME\<close> and \<open>KM_PASSWORD\<close> set the registry holds the machine
  \<open>default\<close>.
\<close>

theorem C7_empty_text_counterexample:
  "sampleParse [] = Inl (Error (str ''Unexpected end of JSON input''))
   \<and> getMachines sampleParse (envOf (Some []))
       = [\<lparr>nameV = Str (str ''default''), hostV = Str (str ''studio.local''), portV = Num 4490,
           usernameV = Str (str ''km''), passwordV = Str (str ''secret''), secureV = Bool False,
           outputDirV = Undefined, saveClipboardMacroUidV = Undefined\<rparr>]
   \<and> getMachines sampleParse (envOf (Some [])) \<noteq> []"
  by (simp add: getMachines_def legacyMachines_def envOf_def sampleParse_def listText_def str_def)


theorem C7_malformed_list_is_empty_witness:
  "getMachines sampleParse (envOf (Some (str ''[oops''))) = []
   \<and> getMachines sampleParse (envOf (Some (str ''{\"name\":\"Studio\"}''))) = []"
proof -
  have a1: "KM_MACHINES (envOf (Some (str ''[oops''))) = Some (str ''[oops'')"
    by (simp add: envOf_def)
  have a2: "str ''[oops'' \<noteq> []"
    by (simp add: str_def)
  have a3: "sampleParse (str ''[oops'') = Inl (Error (str ''Unexpected end of JSON input''))
            \<or> (sampleParse (str ''[oops'') = Inr Null \<and> \<not> isArray Null)"
    by (simp add: sampleParse_def listText_def str_def)
  have b1: "KM_MACHINES (envOf (Some (str ''{\"name\":\"Studio\"}'')))
            = Some (str ''{\"name\":\"Studio\"}'')"
    by (simp add: envOf_def)
  have b2: "str ''{\"name\":\"Studio\"}'' \<noteq> []"
    by (simp add: str_def)
  have b3: "sampleParse (str ''{\"name\":\"Studio\"}'') = Inl Thrown
            \<or> (sampleParse (str ''{\"name\":\"Studio\"}'')
                 = Inr (Obj [(str ''name'', Str (str ''Studio''))])
               \<and> \<not> isArray (Obj [(str ''name'', Str (str ''Studio''))]))"
    by (simp add: sampleParse_def listText_def str_def)
  show ?thesis
    using
      C7_malformed_list_is_empty [where JSON_parse = sampleParse
        and env = "envOf (Some (str ''[oops''))" and s = "str ''[oops''", OF a1 a2 a3]
      C7_malformed_list_is_empty [where JSON_parse = sampleParse
        and env = "envOf (Some (str ''{\"name\":\"Studio\"}''))"
        and s = "str ''{\"name\":\"Studio\"}''", OF b1 b2 b3]
    by simp
qed

theorem C8_registry_order_and_defaults_witness:
  "length (getMachines sampleParse (envOf (Some listText))) = 2
   \<and> hostV (getMachines sampleParse (envOf (Some listText)) ! 0) = Str (str ''studio.local'')
   \<and> portV (getMachines sampleParse (envOf (Some listText)) ! 0) = Num 4500
   \<and> secureV (getMachines sampleParse (envOf (Some listText)) ! 0) = Bool True
   \<and> hostV (getMachines sampleParse (envOf (Some listText)) ! 1) = Str (str ''laptop.local'')
   \<and> portV (getMachines sampleParse (envOf (Some listText)) ! 1) = Num 4490
   \<and> secureV (getMachines sampleParse (envOf (Some listText)) ! 1) = Bool False"
proof -
  have h1: "KM_MACHINES (envOf (Some listText)) = Some listText"
    by (simp add: envOf_def)
  have h2: "listText \<noteq> []"
    by (simp add: listText_def str_def)
  have h3: "sampleParse listText = Inr (Arr (map Obj listObjects))"
    by (simp add: sampleParse_def)
  have two: "length listObjects = Suc (Suc 0)"
    by (simp add: listObjects_def)
  show ?thesis
    using C8_registry_order_and_defaults [where JSON_parse = sampleParse
        and env = "envOf (Some listText)" and s = listText and objs = listObjects
        and p = 4500 and b = True, OF h1 h2 h3]
    by (simp add: two All_less_Suc) (simp add: listObjects_def own_def str_def)
qed


section \<open>Clipboard capture\<close>

text \<open>
  A poll is bounded: it returns before the deadline plus one interval, it answers true
  only at an instant at which the path is readable, and it gives up only at or after
  the deadline.
\<close>

lemma waitLoop_bounded:
  "s \<le> now \<Longrightarrow> snd (waitLoop acc s T now) < max (now + 1) (s + T + pollInterval)"
proof (induction acc s T now rule: waitLoop.induct)
  case (1 acc startTime timeoutMs now)
  show ?case
  proof (cases "now - startTime < timeoutMs \<and> \<not> acc now")
    case True
    with 1 have "snd (waitLoop acc startTime timeoutMs (now + pollInterval))
                 < max (now + pollInterval + 1) (startTime + timeoutMs + pollInterval)"
      by simp
    moreover from True "1.prems" have "now + pollInterval + 1 \<le> startTime + timeoutMs + pollInterval"
      by arith
    ultimately show ?thesis
      using True by (subst waitLoop.simps) simp
  next
    case False
    then show ?thesis by (subst waitLoop.simps) auto
  qed
qed

lemma waitLoop_answer:
  "s \<le> now \<Longrightarrow>
   (if fst (waitLoop acc s T now) then acc (snd (waitLoop acc s T now))
    else s + T \<le> snd (waitLoop acc s T now))"
proof (induction acc s T now rule: waitLoop.induct)
  case (1 acc startTime timeoutMs now)
  show ?case
  proof (cases "now - startTime < timeoutMs \<and> \<not> acc now")
    case True
    with 1 show ?thesis by (subst (1 2 3) waitLoop.simps) simp
  next
    case False
    with 1 show ?thesis by (subst (1 2 3) waitLoop.simps) auto
  qed
qed

text \<open>
  A poll answers true as soon as the path is readable at one of its polling instants,
  which are \<open>pollInterval\<close> apart from the start to the deadline.
\<close>

lemma waitLoop_finds:
  "acc (now + pollInterval * k) \<Longrightarrow> now + pollInterval * k - s < T \<Longrightarrow> s \<le> now
   \<Longrightarrow> fst (waitLoop acc s T now)"
proof (induction k arbitrary: now)
  case 0
  then show ?case by (simp add: waitLoop.simps)
next
  case (Suc k)
  from Suc.prems have inside: "now - s < T" by simp
  show ?case
  proof (cases "acc now")
    case True
    with inside show ?thesis by (simp add: waitLoop.simps)
  next
    case False
    have "fst (waitLoop acc s T (now + pollInterval))"
      using Suc.prems by (intro Suc.IH) (simp_all add: algebra_simps)
    with False inside show ?thesis by (subst waitLoop.simps) simp
  qed
qed

lemma waitForFile_finds:
  assumes "readable w p (clock w + 100 * k)" and "100 * k < T"
  shows "fst (waitForFile w p T)"
  using assms waitLoop_finds [of "readable w p" "clock w" k "clock w" T]
  by (simp add: waitForFile_def pollInterval_def Let_def)

lemma triggerMacro_world:
  "readable (snd (triggerMacro w m macro v)) = readable w"
  "readBytes (snd (triggerMacro w m macro v)) = readBytes w"
  "readText (snd (triggerMacro w m macro v)) = readText w"
  "clock (snd (triggerMacro w m macro v)) = clock w"
  by (simp_all add: triggerMacro_snd)

lemma waitForFile_cong:
  "readable w' = readable w \<Longrightarrow> clock w' = clock w \<Longrightarrow> waitForFile w' p T = waitForFile w p T"
  by (simp add: waitForFile_def Let_def)

lemma waitForBoth_fst:
  "fst (waitForBoth w tp ip T) = (fst (waitForFile w tp T), fst (waitForFile w ip T))"
  by (simp add: waitForBoth_def split_beta)

lemma waitForBoth_snd:
  "snd (waitForBoth w tp ip T) = w\<lparr>clock := max (snd (waitForFile w tp T)) (snd (waitForFile w ip T))\<rparr>"
  by (simp add: waitForBoth_def split_beta)

text \<open>The capture once the identifier is known, in terms of its three stages.\<close>

lemma getClipboardResult_configured:
  assumes "saveClipboardMacroUid m = Some u" and "u \<noteq> []"
  shows "getClipboardResult w m =
     (let requestId = take 8 (uuid w);
          w1 = snd (triggerMacro w m u (Some requestId));
          triggerResult = fst (triggerMacro w m u (Some requestId));
          textPath = join w (getOutputDir w m) (str ''clipsav_'' @ requestId @ str ''.txt'');
          imagePath = join w (getOutputDir w m) (str ''clipsav_'' @ requestId @ str ''.png'');
          w2 = snd (waitForBoth w1 textPath imagePath 3000)
      in if \<not> success triggerResult then
           (failed (str ''Failed to trigger Save Clipboard macro: '' @ message triggerResult), w1)
         else (readResult w2 textPath imagePath (fst (waitForFile w textPath 3000))
                 (fst (waitForFile w imagePath 3000)), w2))"
  using assms
  by (simp add: getClipboardResult_def Let_def split_beta waitForBoth_fst
      waitForFile_cong [OF triggerMacro_world(1) triggerMacro_world(4)])

text \<open>
  The only check \<open>getClipboardResult\<close> makes before the network is on
  \<open>saveClipboardMacroUid\<close>: absent or empty, it returns the configuration message and
  leaves the world as it was; present, the trigger call is made whether or not
  \<open>outputDir\<close> is set, a missing \<open>outputDir\<close> being replaced by
  \<open>join(homedir(), "Downloads")\<close>.
\<close>

lemma getClipboardResult_gate:
  "(saveClipboardMacroUid m = None \<or> saveClipboardMacroUid m = Some [] \<longrightarrow>
      getClipboardResult w m = (failed (notConfiguredMessage m), w))
   \<and> (saveClipboardMacroUid m = Some u \<and> u \<noteq> [] \<longrightarrow>
      sent (snd (getClipboardResult w m)) = sent w @ [triggerRequest m u (Some (take 8 (uuid w)))])
   \<and> (outputDir m = None \<longrightarrow> getOutputDir w m = join w (homedir w) (str ''Downloads''))"
proof -
  have "sent (snd (getClipboardResult w m)) = sent w @ [triggerRequest m u (Some (take 8 (uuid w)))]"
    if "saveClipboardMacroUid m = Some u" and "u \<noteq> []"
    using that
    by (simp add: getClipboardResult_configured Let_def waitForBoth_snd triggerMacro_snd)
  then show ?thesis
    by (auto simp add: getClipboardResult_def getOutputDir_def)
qed

text \<open>
  C9. With the capture configured and the trigger call successful: if the image path
  is readable at one of the thirty polling instants and the read of it returns bytes,
  the result is the image result, with the base64 text of those bytes and the image
  path, whatever the text path did. And a result of type text means that the image
  path was readable at none of the polling instants.
\<close>

theorem C9_image_priority:
  assumes "saveClipboardMacroUid m = Some u" and "u \<noteq> []"
    and "imagePath = join w (getOutputDir w m) (str ''clipsav_'' @ take 8 (uuid w) @ str ''.png'')"
  shows "(success (fst (triggerMacro w m u (Some (take 8 (uuid w)))))
          \<and> k < 30 \<and> readable w imagePath (clock w + 100 * k)
          \<and> readBytes w imagePath (clock (snd (getClipboardResult w m))) = Inr bytes \<longrightarrow>
            fst (getClipboardResult w m) =
              \<lparr>success = True, message = str ''Clipboard image retrieved successfully'',
               type = Some Image, content = Some (base64 bytes), filePath = Some imagePath\<rparr>)
    \<and> (type (fst (getClipboardResult w m)) = Some Text \<and> j < 30 \<longrightarrow>
          \<not> readable w imagePath (clock w + 100 * j))"
proof -
  let ?r = "fst (getClipboardResult w m)"
  have found: "fst (waitForFile w imagePath 3000)" if "i < 30" and "readable w imagePath (clock w + 100 * i)" for i
    using that by (intro waitForFile_finds [of w imagePath i]) simp_all
  have image: "?r = \<lparr>success = True, message = str ''Clipboard image retrieved successfully'',
               type = Some Image, content = Some (base64 bytes), filePath = Some imagePath\<rparr>"
    if "success (fst (triggerMacro w m u (Some (take 8 (uuid w)))))"
      and "k < 30" and "readable w imagePath (clock w + 100 * k)"
      and "readBytes w imagePath (clock (snd (getClipboardResult w m))) = Inr bytes"
    using that found [of k] assms
    by (simp add: getClipboardResult_configured Let_def readResult_def waitForBoth_snd
        triggerMacro_snd)
  have only_text: "\<not> readable w imagePath (clock w + 100 * j)"
    if "type ?r = Some Text" and "j < 30"
  proof
    assume "readable w imagePath (clock w + 100 * j)"
    with that have "fst (waitForFile w imagePath 3000)" by (intro found [of j])
    with that assms show False
      by (simp add: getClipboardResult_configured Let_def readResult_def failed_def
          split: if_splits sum.splits)
  qed
  from image only_text show ?thesis by blast
qed


section \<open>Captures on the sample worlds\<close>

lemmas world_eval = withFiles_def answering_def serverOf_def clipMachine_def sharedMachine_def
  studio_def textFile_def imageFile_def

lemmas wait_eval = waitForFile_def waitLoop.simps pollInterval_def Let_def

lemma sample_poll_both:
  "waitForFile bothAt200 textFile 3000 = (True, 200)"
  "waitForFile bothAt200 imageFile 3000 = (True, 200)"
  by (simp_all add: bothAt200_def world_eval wait_eval str_def)

lemma sample_poll_text:
  "waitForFile textAtOnce textFile 3000 = (True, 0)"
  "waitForFile textAtOnce imageFile 3000 = (False, 3000)"
  by (simp_all add: textAtOnce_def world_eval wait_eval str_def)

text \<open>
  C2, where the code departs from the claim. Each poll tests its path every 100 ms
  for 3000 ms, as claimed. The join, however, is \<open>Promise.all\<close>: it settles when both
  polls have settled, not when the first one succeeds. With the text file readable
  from the start and no image file, the text poll answers at once, the image poll
  runs to its deadline, and the polling phase ends 3000 ms after it began.
\<close>

theorem C2_join_waits_for_both_polls:
  "readable textAtOnce textFile (clock textAtOnce)
   \<and> waitForFile textAtOnce textFile 3000 = (True, clock textAtOnce)
   \<and> waitForFile textAtOnce imageFile 3000 = (False, clock textAtOnce + 3000)
   \<and> fst (waitForBoth textAtOnce textFile imageFile 3000) = (True, False)
   \<and> clock (snd (waitForBoth textAtOnce textFile imageFile 3000)) = clock textAtOnce + 3000"
  by (simp add: waitForBoth_def sample_poll_text)
     (simp add: textAtOnce_def world_eval str_def)


text \<open>
  A capture whose trigger call succeeded: the two polls, then the read at the time the
  later poll ended.
\<close>

lemma getClipboardResult_polled:
  assumes "saveClipboardMacroUid m = Some u" and "u \<noteq> []"
    and "success (fst (triggerMacro w m u (Some (take 8 (uuid w)))))"
    and "tp = join w (getOutputDir w m) (str ''clipsav_'' @ take 8 (uuid w) @ str ''.txt'')"
    and "ip = join w (getOutputDir w m) (str ''clipsav_'' @ take 8 (uuid w) @ str ''.png'')"
  shows "fst (getClipboardResult w m)
         = readResult (w\<lparr>clock := max (snd (waitForFile w tp 3000)) (snd (waitForFile w ip 3000))\<rparr>)
             tp ip (fst (waitForFile w tp 3000)) (fst (waitForFile w ip 3000))"
    and "clock (snd (getClipboardResult w m))
         = max (snd (waitForFile w tp 3000)) (snd (waitForFile w ip 3000))"
  using assms
  by (simp_all add: getClipboardResult_configured Let_def waitForBoth_snd triggerMacro_world
      waitForFile_cong [OF triggerMacro_world(1) triggerMacro_world(4)] readResult_def)

lemma sample_uid:
  "saveClipboardMacroUid sharedMachine = Some (str ''D03AC8C4-56B0-4903-9682-8B2EC10576FC'')"
  "saveClipboardMacroUid clipMachine = Some (str ''D03AC8C4-56B0-4903-9682-8B2EC10576FC'')"
  "str ''D03AC8C4-56B0-4903-9682-8B2EC10576FC'' \<noteq> []"
  by (simp_all add: world_eval str_def)

lemma sample_trigger:
  "success (fst (triggerMacro bothAt200 sharedMachine u v))"
  "success (fst (triggerMacro textAtOnce sharedMachine u v))"
  "success (fst (triggerMacro (answering 200 []) clipMachine u v))"
  by (simp_all add: triggerMacro_fst triggerMacro_try_def ok_def world_eval bothAt200_def
      textAtOnce_def)

lemma sample_files:
  "imageFile = join bothAt200 (getOutputDir bothAt200 sharedMachine)
     (str ''clipsav_'' @ take 8 (uuid bothAt200) @ str ''.png'')"
  "textFile = join bothAt200 (getOutputDir bothAt200 sharedMachine)
     (str ''clipsav_'' @ take 8 (uuid bothAt200) @ str ''.txt'')"
  "imageFile = join textAtOnce (getOutputDir textAtOnce sharedMachine)
     (str ''clipsav_'' @ take 8 (uuid textAtOnce) @ str ''.png'')"
  "textFile = join textAtOnce (getOutputDir textAtOnce sharedMachine)
     (str ''clipsav_'' @ take 8 (uuid textAtOnce) @ str ''.txt'')"
  by (simp_all add: bothAt200_def textAtOnce_def world_eval getOutputDir_def str_def)

lemma sample_capture_both:
  "fst (getClipboardResult bothAt200 sharedMachine)
   = \<lparr>success = True, message = str ''Clipboard image retrieved successfully'',
      type = Some Image, content = Some (base64 [137, 80, 78, 71]), filePath = Some imageFile\<rparr>"
  "clock (snd (getClipboardResult bothAt200 sharedMachine)) = 200"
proof -
  note polled = getClipboardResult_polled [where w = bothAt200 and m = sharedMachine
      and tp = textFile and ip = imageFile, OF sample_uid(1) sample_uid(3)
      sample_trigger(1) sample_files(2) sample_files(1)]
  show "fst (getClipboardResult bothAt200 sharedMachine)
   = \<lparr>success = True, message = str ''Clipboard image retrieved successfully'',
      type = Some Image, content = Some (base64 [137, 80, 78, 71]), filePath = Some imageFile\<rparr>"
    by (simp add: polled(1) sample_poll_both readResult_def)
       (simp add: bothAt200_def withFiles_def imageFile_def str_def)
  show "clock (snd (getClipboardResult bothAt200 sharedMachine)) = 200"
    by (simp add: polled(2) sample_poll_both)
qed

lemma sample_capture_text:
  "fst (getClipboardResult textAtOnce sharedMachine)
   = \<lparr>success = True, message = str ''Clipboard text retrieved successfully'',
      type = Some Text, content = Some (str ''hello''), filePath = Some textFile\<rparr>"
  "clock (snd (getClipboardResult textAtOnce sharedMachine)) = 3000"
proof -
  note polled = getClipboardResult_polled [where w = textAtOnce and m = sharedMachine
      and tp = textFile and ip = imageFile, OF sample_uid(1) sample_uid(3)
      sample_trigger(2) sample_files(4) sample_files(3)]
  show "fst (getClipboardResult textAtOnce sharedMachine)
   = \<lparr>success = True, message = str ''Clipboard text retrieved successfully'',
      type = Some Text, content = Some (str ''hello''), filePath = Some textFile\<rparr>"
    by (simp add: polled(1) sample_poll_text readResult_def)
       (simp add: textAtOnce_def withFiles_def)
  show "clock (snd (getClipboardResult textAtOnce sharedMachine)) = 3000"
    by (simp add: polled(2) sample_poll_text)
qed




theorem C9_image_priority_witness:
  "fst (getClipboardResult bothAt200 sharedMachine)
     = \<lparr>success = True, message = str ''Clipboard image retrieved successfully'',
        type = Some Image, content = Some (str ''iVBORw==''), filePath = Some imageFile\<rparr>
   \<and> readable bothAt200 textFile 200
   \<and> type (fst (getClipboardResult textAtOnce sharedMachine)) = Some Text
   \<and> \<not> readable textAtOnce imageFile (clock textAtOnce + 100 * 7)"
proof -
  have seen: "(2::nat) < 30" "readable bothAt200 imageFile (clock bothAt200 + 100 * 2)"
    "readable bothAt200 textFile 200"
    by (simp_all add: bothAt200_def world_eval str_def)
  have bytes: "readBytes bothAt200 imageFile (clock (snd (getClipboardResult bothAt200 sharedMachine)))
               = Inr [137, 80, 78, 71]"
    by (simp add: sample_capture_both(2)) (simp add: bothAt200_def world_eval str_def)
  have encoded: "base64 [137, 80, 78, 71] = str ''iVBORw==''"
    by (simp add: b64_def str_def)
  have "(7::nat) < 30" by simp
  with seen bytes encoded sample_trigger(1) sample_capture_text(1)
    C9_image_priority [where w = bothAt200 and m = sharedMachine and imagePath = imageFile
      and k = 2 and bytes = "[137, 80, 78, 71]", OF sample_uid(1) sample_uid(3) sample_files(1)]
    C9_image_priority [where w = textAtOnce and m = sharedMachine and imagePath = imageFile
      and j = 7, OF sample_uid(1) sample_uid(3) sample_files(3)]
  show ?thesis by simp
qed

section \<open>The macro catalog\<close>

lemmas parse_eval = js_eval parseMacros_def execAll.simps trim_def isWhiteSpace_def
  formRegex_def optgroupRegex_def optionRegex_def notGt_def notQuote_def anyChar_def Let_def

lemma listMacros_fst:
  "fst (listMacros w m) =
     (case listMacros_try m (respond w (listRequest m)) of
        Inl error \<Rightarrow> listMacros_catch m error | Inr r \<Rightarrow> r)"
  by (simp add: listMacros_def fetch_def)

lemma andThen_Inr:
  "andThen x f = Inr y \<Longrightarrow> \<exists>z. x = Inr z \<and> f z = Inr y"
  by (cases x) simp_all

lemma optionsLoop_entries:
  "optionsLoop g ms = Inr es \<Longrightarrow> list_all (\<lambda>e. macroName e \<noteq> [] \<and> uid e \<noteq> [] \<and> group e = g) es"
proof (induction g ms arbitrary: es rule: optionsLoop.induct)
  case (1 groupName)
  then show ?case by simp
next
  case (2 groupName label val others optionMatches)
  from "2.prems" obtain name found where
    "optionsLoop groupName optionMatches = Inr found"
    and es: "es = (if name \<noteq> [] \<and> val \<noteq> []
              then \<lparr>macroName = name, uid = val, group = groupName\<rparr> # found else found)"
    by (auto dest!: andThen_Inr)
  with "2.IH" have "list_all (\<lambda>e. macroName e \<noteq> [] \<and> uid e \<noteq> [] \<and> group e = groupName) found"
    by simp
  with es show ?case by simp
qed simp_all

lemma groupsLoop_entries:
  "groupsLoop gs = Inr es \<Longrightarrow> list_all (\<lambda>e. macroName e \<noteq> [] \<and> uid e \<noteq> []) es"
proof (induction gs arbitrary: es rule: groupsLoop.induct)
  case 1
  then show ?case by simp
next
  case (2 label groupContent others groupMatches)
  from "2.prems" obtain groupName found more where
    opts: "optionsLoop groupName (execAll True optionRegex groupContent) = Inr found"
    and rest: "groupsLoop groupMatches = Inr more" and es: "es = found @ more"
    by (auto dest!: andThen_Inr)
  from optionsLoop_entries [OF opts]
  have "list_all (\<lambda>e. macroName e \<noteq> [] \<and> uid e \<noteq> []) found"
    by (simp add: list_all_iff)
  with "2.IH" rest es show ?case by simp
qed simp_all

text \<open>Whatever a successful listing returns has a name and an identifier.\<close>

lemma listMacros_entries:
  assumes "macros (fst (listMacros w m)) = Some es"
  shows "list_all (\<lambda>e. macroName e \<noteq> [] \<and> uid e \<noteq> []) es"
proof -
  from assms obtain html where "parseMacros html = Inr es"
    by (auto simp add: listMacros_fst listMacros_try_def listMacros_catch_def
        split: sum.splits if_splits dest!: andThen_Inr)
  then show ?thesis
    by (simp add: parseMacros_def Let_def groupsLoop_entries)
qed

lemma catalog_parsed:
  "parseMacros catalog =
     Inr [\<lparr>macroName = str ''Shot'', uid = str ''U1'', group = str ''A & B''\<rparr>,
          \<lparr>macroName = str ''<b>'', uid = str ''U2'', group = str ''A & B''\<rparr>,
          \<lparr>macroName = str ''Send'', uid = str ''U3'', group = str ''Mail''\<rparr>,
          \<lparr>macroName = str ''File'', uid = str ''U4'', group = str ''Mail''\<rparr>]"
  by (simp add: catalog_def parse_eval)

lemma fineCatalog_parsed:
  "parseMacros fineCatalog =
     Inr [\<lparr>macroName = str ''A'', uid = str ''1'', group = str ''G''\<rparr>,
          \<lparr>macroName = [56319, 57343], uid = str ''2'', group = str ''G''\<rparr>]"
  by (simp add: fineCatalog_def parse_eval)

lemma badCatalog_parsed:
  "parseMacros badCatalog = Inl (Error (str ''Invalid code point 1114112''))"
  by (simp add: badCatalog_def parse_eval digits.simps)

text \<open>
  C5, where the code departs from the claim. Every entry of a successful listing has
  a name, an identifier and the decoded label of its group (the lemmas above), and the
  sample catalog gives its four entries. A decimal or hexadecimal reference beyond
  U+10FFFF in any label, however, makes \<open>String.fromCodePoint\<close> throw inside
  \<open>decodeHtmlEntities\<close>; the \<open>catch\<close> block of \<open>listMacros\<close> takes it for a connection
  failure, and no entry of the document is returned, not even the well-formed option
  \<open>A\<close> next to the offending one.
\<close>

theorem C5_listing_fails_on_a_reference_out_of_range:
  "fst (listMacros (answering 200 fineCatalog) studio)
     = \<lparr>successL = True,
        macros = Some [\<lparr>macroName = str ''A'', uid = str ''1'', group = str ''G''\<rparr>,
                       \<lparr>macroName = [56319, 57343], uid = str ''2'', group = str ''G''\<rparr>],
        messageL = None\<rparr>
   \<and> fst (listMacros (answering 200 badCatalog) studio)
     = \<lparr>successL = False, macros = None,
        messageL = Some (str ''Failed to connect to Studio (studio.local:4490): Invalid code point 1114112'')\<rparr>"
  by (simp add: listMacros_fst listMacros_try_def listMacros_catch_def ok_def answering_def
      serverOf_def fineCatalog_parsed badCatalog_parsed)
     (simp add: studio_def str_def showInt_def digits.simps)


end
